theory Spec2Isabelle
  imports Main
begin

section \<open>Data model of the application store (app-store.ts)\<close>

datatype Quality = Fast | Normal | High

datatype JobStatus = Idle | Queued | Running | Done | Error | Cancelled

record BaseImage =
  image_id :: string
  image_url :: string
  placeholderSlot :: "string option"

text \<open>
  \<open>ResultItem\<close> of the store. The field \<open>id\<close> of the source is called \<open>item_id\<close>
  here; an optional field (\<open>seed?: number\<close>) is an \<open>option\<close>, \<open>None\<close> standing
  for \<open>undefined\<close>. Seeds are integers.
\<close>

record ResultItem =
  item_id :: string
  url :: string
  relativeUrl :: "string option"
  seed :: "int option"
  quality :: Quality
  degraded :: "bool option"
  downloadToken :: "string option"

record State =
  prompt :: string
  baseImage :: "BaseImage option"
  results :: "ResultItem list"
  currentResult :: "ResultItem option"
  jobStatus :: JobStatus
  jobMessage :: "string option"
  activeJobId :: "string option"
  lastSketchDataUrl :: "string option"
  lastCanvasDataUrl :: "string option"
  clearSketchVersion :: nat
  sessionId :: "string option"

subsection \<open>Store actions\<close>

text \<open>\<open>xs.slice(-n)\<close> of JavaScript: the last \<open>n\<close> elements, all of them when there are fewer.\<close>

definition slice_last :: "nat \<Rightarrow> 'a list \<Rightarrow> 'a list" where
  "slice_last n xs = drop (length xs - n) xs"

text \<open>\<open>xs.slice(0, -1)\<close>: all but the last element.\<close>

definition slice_but_last :: "'a list \<Rightarrow> 'a list" where
  "slice_but_last xs = take (length xs - 1) xs"

text \<open>\<open>xs[xs.length - 1] ?? null\<close>: the last element, \<open>null\<close> on the empty array.\<close>

definition last_or_null :: "'a list \<Rightarrow> 'a option" where
  "last_or_null xs = (if xs = [] then None else Some (xs ! (length xs - 1)))"

definition setPrompt :: "string \<Rightarrow> 'a State_scheme \<Rightarrow> 'a State_scheme" where
  "setPrompt v s = s\<lparr>prompt := v\<rparr>"

definition setBaseImage :: "BaseImage option \<Rightarrow> 'a State_scheme \<Rightarrow> 'a State_scheme" where
  "setBaseImage img s = s\<lparr>baseImage := img\<rparr>"

definition pushResult :: "ResultItem \<Rightarrow> 'a State_scheme \<Rightarrow> 'a State_scheme" where
  "pushResult result s =
     (let filtered = filter (\<lambda>item. item_id item \<noteq> item_id result) (results s);
          history = filtered @ [result];
          trimmed = slice_last 5 history
      in s\<lparr>results := trimmed, currentResult := Some result\<rparr>)"

definition setCurrentResult :: "ResultItem option \<Rightarrow> 'a State_scheme \<Rightarrow> 'a State_scheme" where
  "setCurrentResult r s = s\<lparr>currentResult := r\<rparr>"

definition setJobStatus :: "JobStatus \<Rightarrow> string option \<Rightarrow> 'a State_scheme \<Rightarrow> 'a State_scheme" where
  "setJobStatus status message s = s\<lparr>jobStatus := status, jobMessage := message\<rparr>"

definition resetHistory :: "'a State_scheme \<Rightarrow> 'a State_scheme" where
  "resetHistory s =
     s\<lparr>results := [], currentResult := None, activeJobId := None, jobStatus := Idle,
       jobMessage := None, lastSketchDataUrl := None, lastCanvasDataUrl := None\<rparr>"

definition setActiveJobId :: "string option \<Rightarrow> 'a State_scheme \<Rightarrow> 'a State_scheme" where
  "setActiveJobId jobId s = s\<lparr>activeJobId := jobId\<rparr>"

definition removeLatestResult :: "'a State_scheme \<Rightarrow> 'a State_scheme" where
  "removeLatestResult s =
     (if length (results s) = 0 then s
      else let updated = slice_but_last (results s)
           in s\<lparr>results := updated, currentResult := last_or_null updated\<rparr>)"

definition setLastSketch :: "string option \<Rightarrow> string option \<Rightarrow> 'a State_scheme \<Rightarrow> 'a State_scheme" where
  "setLastSketch sketch canvas s = s\<lparr>lastSketchDataUrl := sketch, lastCanvasDataUrl := canvas\<rparr>"

definition requestClearSketch :: "'a State_scheme \<Rightarrow> 'a State_scheme" where
  "requestClearSketch s = s\<lparr>clearSketchVersion := clearSketchVersion s + 1\<rparr>"

definition setSessionId :: "string option \<Rightarrow> 'a State_scheme \<Rightarrow> 'a State_scheme" where
  "setSessionId sid s = (if sessionId s = sid then s else s\<lparr>sessionId := sid\<rparr>)"

subsection \<open>The history operation as the specification words it\<close>

text \<open>
  The specification describes \<open>push(item)\<close> in four steps: remove any existing entry with
  the same id, append, truncate to the most recent 5 (the oldest evicted first), set as
  current. Each step is written here on its own, independently of the store's code.
\<close>

primrec remove_same_id :: "string \<Rightarrow> ResultItem list \<Rightarrow> ResultItem list" where
  "remove_same_id i [] = []"
| "remove_same_id i (x # xs) = (if item_id x = i then remove_same_id i xs else x # remove_same_id i xs)"

fun evict_oldest :: "nat \<Rightarrow> 'a list \<Rightarrow> 'a list" where
  "evict_oldest cap [] = []"
| "evict_oldest cap (x # xs) = (if cap < length (x # xs) then evict_oldest cap xs else x # xs)"

definition push_spec :: "ResultItem \<Rightarrow> ResultItem list \<Rightarrow> ResultItem list" where
  "push_spec item h = evict_oldest 5 (remove_same_id (item_id item) h @ [item])"

section \<open>The generation controller (useGenerationController)\<close>

text \<open>
  The hook is a set of event handlers over the store and four mutable refs. JavaScript runs
  each handler to its next \<open>await\<close> without interruption, so every handler is modelled
  as one function per synchronous segment: \<open>f_begin\<close> is the part up to the remote call
  (returning the calls it issues), \<open>f_resume\<close> the part that runs when the call settles.
  The callbacks \<open>executeGeneration\<close>, \<open>requestCancellation\<close> and \<open>submitGeneration\<close> read
  \<open>baseImage\<close>, \<open>prompt\<close>, \<open>jobStatus\<close> and \<open>activeJobId\<close> of the render they were created
  in, and the refs and the store's setters when they run. Each is modelled with the
  captured values as an argument, and once more for the callback of the current render.
  The actions of the result panel and the effects use the callbacks of the current render;
  the canvas calls \<open>submitGeneration\<close> from a timer, through the callback it captured when
  the timer was set.

  The model is of one mounted instance of the hook. The effect that opens and reopens the
  socket is not modelled (the socket opening and closing are events of the environment),
  nor are \<open>downloadCurrent\<close>, which changes no state, and \<open>selectHistoryItem\<close>, which only
  moves the current result.
\<close>

record PendingGeneration =
  sketchDataUrl :: string
  canvasDataUrl :: "string option"
  pg_quality :: Quality
  pg_seed :: "int option"

text \<open>
  The state of one controller: the store, the refs \<open>pendingJobRef\<close>,
  \<open>pendingGenerationRef\<close>, \<open>cancellationRequestedRef\<close>, \<open>lastJobStatusRef\<close>, whether the
  socket in \<open>wsRef\<close> is open, and what React keeps of the hook's effects: the values of
  \<open>activeJobId\<close> and \<open>jobStatus\<close> at the last run of the effects that depend on them, and
  the job id captured by the polling interval that is registered (\<open>None\<close>: no interval).
\<close>

record Controller = State +
  pendingJobRef :: "string option"
  pendingGenerationRef :: "PendingGeneration option"
  cancellationRequestedRef :: bool
  lastJobStatusRef :: JobStatus
  wsOpen :: bool
  renderedDeps :: "string option \<times> JobStatus"
  pollTimer :: "string option"

text \<open>The store values a callback captures from the render that creates it.\<close>

record Render =
  r_baseImage :: "BaseImage option"
  r_prompt :: string
  r_jobStatus :: JobStatus
  r_activeJobId :: "string option"

definition rendered :: "Controller \<Rightarrow> Render" where
  "rendered c = \<lparr>r_baseImage = baseImage c, r_prompt = prompt c, r_jobStatus = jobStatus c,
                 r_activeJobId = activeJobId c\<rparr>"

subsection \<open>Collaborators and remote calls\<close>

text \<open>
  What the hook takes from outside: the API origin, the translation function \<open>t\<close>, the
  interface language, the browser's \<open>atob\<close> (\<open>Inl\<close>: it throws, with this message) and the
  message of the \<open>TypeError\<close> raised by reading a property of \<open>null\<close>.
\<close>

record Env =
  apiOrigin :: "string option"
  t :: "string \<Rightarrow> string"
  language :: string
  atob :: "string \<Rightarrow> string + string"
  nullPropertyMessage :: string

text \<open>A blob keeps the header of the data URL (its MIME type is read from it) and the decoded bytes.\<close>

record Blob =
  blob_header :: string
  blob_bytes :: string

record GenerateForm =
  base_image_id :: string
  form_prompt :: string
  ui_language :: string
  form_quality :: Quality
  form_seed :: "int option"
  sketch_png :: Blob
  canvas_png :: "Blob option"

datatype Effect =
    PostGenerate GenerateForm
  | PostCancel string
  | GetStatus string
  | PostUndo
  | PostApplyResult string
  | RedirectToLogin
  | WsSubscribe string "string option"

text \<open>
  A settled \<open>fetch\<close>: rejected with an error message, or a response with its status code,
  the value of \<open>body?.error?.message\<close> (\<open>None\<close> when the body does not parse or the field is
  nullish) and the outcome of \<open>response.json()\<close> (\<open>Inl\<close>: it rejects; \<open>Inr None\<close>: the body
  is \<open>null\<close>).
\<close>

record 'd Response =
  status :: nat
  error_message :: "string option"
  json :: "string + 'd option"

datatype 'd Fetched = Rejected string | Resolved "'d Response"

definition ok :: "('d, 'a) Response_scheme \<Rightarrow> bool" where
  "ok r = (200 \<le> status r \<and> status r \<le> 299)"

definition redirectIfUnauthorized :: "('d, 'a) Response_scheme \<Rightarrow> bool \<times> Effect list" where
  "redirectIfUnauthorized r = (if status r = 401 then (True, [RedirectToLogin]) else (False, []))"

record GenerateData =
  g_status :: "string option"
  g_job_id :: "string option"
  g_quality_degraded :: bool

record PollData =
  p_job_id :: "string option"
  p_status :: "string option"
  p_result_url :: "string option"
  p_seed :: "int option"
  p_quality_effective :: "Quality option"
  p_quality_degraded :: bool
  p_download_token :: "string option"
  p_error_message :: "string option"

record UndoData =
  u_result_id :: "string option"

record ApplyData =
  a_image_id :: string
  a_url :: string

record WsResult =
  w_job_id :: string
  w_result_url :: "string option"
  w_seed :: "int option"
  w_quality_effective :: "Quality option"
  w_quality_degraded :: bool
  w_download_token :: "string option"

datatype WsMessage =
    WsStatus string
  | WsResultMsg WsResult
  | WsError "string option"
  | WsCancelled
  | WsUnknown
  | WsMalformed

subsection \<open>JavaScript values\<close>

text \<open>Truthiness of a \<open>string | null\<close>: neither \<open>null\<close> nor the empty string.\<close>

definition truthy :: "string option \<Rightarrow> bool" where
  "truthy x = (case x of None \<Rightarrow> False | Some v \<Rightarrow> v \<noteq> [])"

text \<open>Truthiness of a \<open>number | undefined\<close>: a number other than zero.\<close>

definition truthy_num :: "int option \<Rightarrow> bool" where
  "truthy_num x = (case x of None \<Rightarrow> False | Some n \<Rightarrow> n \<noteq> 0)"

text \<open>\<open>a ?? b\<close>.\<close>

definition nullish :: "'a option \<Rightarrow> 'a \<Rightarrow> 'a" where
  "nullish a b = (case a of None \<Rightarrow> b | Some v \<Rightarrow> v)"

text \<open>\<open>s.split(c)\<close> and \<open>s.startsWith("http")\<close>.\<close>

fun split_on :: "char \<Rightarrow> string \<Rightarrow> string list" where
  "split_on c [] = [[]]"
| "split_on c (x # xs) =
     (if x = c then [] # split_on c xs
      else (case split_on c xs of [] \<Rightarrow> [[x]] | p # ps \<Rightarrow> (x # p) # ps))"

definition startsWith_http :: "string \<Rightarrow> bool" where
  "startsWith_http s = (take 4 s = ''http'')"

text \<open>\<open>isGenerating\<close> of the hook: the status is busy.\<close>

definition isGenerating :: "JobStatus \<Rightarrow> bool" where
  "isGenerating st = (st = Queued \<or> st = Running)"

definition dataUrlToBlob :: "Env \<Rightarrow> string \<Rightarrow> string + Blob" where
  "dataUrlToBlob env dataUrl =
     (let parts = take 2 (split_on CHR '','' dataUrl)
      in if length parts \<noteq> 2 then Inl ''Invalid data URL''
         else (case atob env (parts ! 1) of
                 Inl e \<Rightarrow> Inl e
               | Inr binaryString \<Rightarrow> Inr \<lparr>blob_header = parts ! 0, blob_bytes = binaryString\<rparr>))"

definition absoluteUrl :: "Env \<Rightarrow> string \<Rightarrow> string" where
  "absoluteUrl env rel =
     (if startsWith_http rel then rel
      else if truthy (apiOrigin env) then nullish (apiOrigin env) [] @ rel
      else rel)"

subsection \<open>Handlers\<close>

text \<open>The reset written out in the 401 branch of the create-job, cancel and poll calls.\<close>

definition unauthorizedReset :: "Controller \<Rightarrow> Controller" where
  "unauthorizedReset c =
     (setActiveJobId None (setJobStatus Idle None c))
       \<lparr>pendingJobRef := None, pendingGenerationRef := None, cancellationRequestedRef := False\<rparr>"

text \<open>The \<open>catch\<close> block, and the non-2xx branch, of \<open>executeGeneration\<close>.\<close>

definition generationFailed :: "string \<Rightarrow> Controller \<Rightarrow> Controller" where
  "generationFailed message c =
     (setActiveJobId None (setJobStatus Error (Some message) c))\<lparr>pendingJobRef := None\<rparr>"

text \<open>
  The two conversions of \<open>executeGeneration\<close>. They run before the first \<open>await\<close>;
  \<open>Promise.all\<close> rejects with the sketch's error, if it has one, before the canvas's.
\<close>

definition convertBlobs :: "Env \<Rightarrow> PendingGeneration \<Rightarrow> string + Blob \<times> Blob option" where
  "convertBlobs env p =
     (case dataUrlToBlob env (sketchDataUrl p) of
        Inl e \<Rightarrow> Inl e
      | Inr sketchBlob \<Rightarrow>
          (case (if truthy (canvasDataUrl p)
                 then map_sum (\<lambda>e. e) Some (dataUrlToBlob env (nullish (canvasDataUrl p) []))
                 else Inr None) of
             Inl e \<Rightarrow> Inl e
           | Inr canvasBlob \<Rightarrow> Inr (sketchBlob, canvasBlob)))"

text \<open>The multipart body of the create-job call.\<close>

definition buildForm ::
  "Env \<Rightarrow> BaseImage \<Rightarrow> string \<Rightarrow> PendingGeneration \<Rightarrow> Blob \<times> Blob option \<Rightarrow> GenerateForm" where
  "buildForm env base pr p blobs =
     \<lparr>base_image_id = image_id base, form_prompt = pr, ui_language = language env,
      form_quality = pg_quality p, form_seed = pg_seed p, sketch_png = fst blobs,
      canvas_png = snd blobs\<rparr>"

text \<open>
  \<open>executeGeneration\<close> up to \<open>await fetch\<close>, as the callback created in render \<open>rn\<close>.
\<close>

definition executeGeneration_captured ::
  "Env \<Rightarrow> Render \<Rightarrow> PendingGeneration \<Rightarrow> Controller \<Rightarrow> Controller \<times> Effect list" where
  "executeGeneration_captured env rn p c =
     (case r_baseImage rn of
        None \<Rightarrow> (setJobStatus Error (Some (t env ''ui.errors.base_required'')) c, [])
      | Some base \<Rightarrow>
          (case convertBlobs env p of
             Inl e \<Rightarrow> (generationFailed e c, [])
           | Inr blobs \<Rightarrow>
               (let formData = buildForm env base (r_prompt rn) p blobs;
                    c1 = setJobStatus Queued None c;
                    c2 = setLastSketch (Some (sketchDataUrl p)) (canvasDataUrl p) c1
                in (c2, [PostGenerate formData]))))"

text \<open>The callback of the current render.\<close>

definition executeGeneration_begin :: "Env \<Rightarrow> PendingGeneration \<Rightarrow> Controller \<Rightarrow> Controller \<times> Effect list" where
  "executeGeneration_begin env p c = executeGeneration_captured env (rendered c) p c"

text \<open>\<open>executeGeneration\<close> from the settled \<open>fetch\<close> on.\<close>

definition executeGeneration_resume :: "Env \<Rightarrow> GenerateData Fetched \<Rightarrow> Controller \<Rightarrow> Controller \<times> Effect list" where
  "executeGeneration_resume env f c =
     (case f of
        Rejected e \<Rightarrow> (generationFailed e c, [])
      | Resolved response \<Rightarrow>
          if fst (redirectIfUnauthorized response)
          then (unauthorizedReset c, snd (redirectIfUnauthorized response))
          else if \<not> ok response
          then (generationFailed (nullish (error_message response) ''Generation failed'') c, [])
          else (case json response of
                  Inl e \<Rightarrow> (generationFailed e c, [])
                | Inr None \<Rightarrow> (generationFailed (nullPropertyMessage env) c, [])
                | Inr (Some data) \<Rightarrow>
                    if g_status data = Some ''skipped''
                    then ((setActiveJobId None (setJobStatus Idle None c))\<lparr>pendingJobRef := None\<rparr>, [])
                    else (let c1 = setActiveJobId (g_job_id data) c
                          in (if g_quality_degraded data then setJobStatus Queued None c1 else c1, []))))"

text \<open>
  \<open>requestCancellation\<close>; \<open>a\<close> is the \<open>activeJobId\<close> of the render the callback belongs to.
\<close>

definition requestCancellation_begin :: "string option \<Rightarrow> Controller \<Rightarrow> Controller \<times> Effect list" where
  "requestCancellation_begin a c =
     (if \<not> truthy a \<or> cancellationRequestedRef c then (c, [])
      else (c\<lparr>cancellationRequestedRef := True\<rparr>, [PostCancel (nullish a [])]))"

definition cancelFailed :: "string \<Rightarrow> Controller \<Rightarrow> Controller" where
  "cancelFailed message c =
     (setJobStatus Error (Some message) c)
       \<lparr>pendingGenerationRef := None, cancellationRequestedRef := False\<rparr>"

definition requestCancellation_resume :: "unit Fetched \<Rightarrow> Controller \<Rightarrow> Controller \<times> Effect list" where
  "requestCancellation_resume f c =
     (case f of
        Rejected e \<Rightarrow> (cancelFailed e c, [])
      | Resolved response \<Rightarrow>
          if fst (redirectIfUnauthorized response)
          then (unauthorizedReset c, snd (redirectIfUnauthorized response))
          else if \<not> ok response
          then (cancelFailed (nullish (error_message response) ''Cancel failed'') c, [])
          else (c, []))"

text \<open>
  \<open>submitGeneration\<close> as the callback created in render \<open>rn\<close>: the two guards and the busy
  test read the captured values, \<open>requestCancellation\<close> and \<open>executeGeneration\<close> are the
  callbacks of the same render.
\<close>

definition submitGeneration_captured ::
  "Env \<Rightarrow> Render \<Rightarrow> string \<Rightarrow> string option \<Rightarrow> Quality \<Rightarrow> int option \<Rightarrow> Controller
   \<Rightarrow> Controller \<times> Effect list" where
  "submitGeneration_captured env rn sketch canvas q sd c =
     (if sketch = [] then (c, [])
      else if r_baseImage rn = None
      then (setJobStatus Error (Some (t env ''ui.errors.base_required'')) c, [])
      else (let payload = \<lparr>sketchDataUrl = sketch, canvasDataUrl = canvas, pg_quality = q, pg_seed = sd\<rparr>
            in if r_jobStatus rn = Queued \<or> r_jobStatus rn = Running
               then requestCancellation_begin (r_activeJobId rn) (c\<lparr>pendingGenerationRef := Some payload\<rparr>)
               else executeGeneration_captured env rn payload (c\<lparr>pendingGenerationRef := None\<rparr>)))"

text \<open>The callback of the current render.\<close>

definition submitGeneration ::
  "Env \<Rightarrow> string \<Rightarrow> string option \<Rightarrow> Quality \<Rightarrow> int option \<Rightarrow> Controller \<Rightarrow> Controller \<times> Effect list" where
  "submitGeneration env sketch canvas q sd c =
     submitGeneration_captured env (rendered c) sketch canvas q sd c"

text \<open>The \<open>onmessage\<close> handler of the socket; a message that does not parse is logged and dropped.\<close>

definition wsResultItem :: "Env \<Rightarrow> WsResult \<Rightarrow> ResultItem" where
  "wsResultItem env m =
     (let rel = nullish (w_result_url m) []
      in \<lparr>item_id = w_job_id m, url = absoluteUrl env rel, relativeUrl = Some rel,
          seed = w_seed m, quality = nullish (w_quality_effective m) Normal,
          degraded = Some (w_quality_degraded m), downloadToken = w_download_token m\<rparr>)"

definition jobEnded :: "JobStatus \<Rightarrow> string option \<Rightarrow> Controller \<Rightarrow> Controller" where
  "jobEnded st message c = (setActiveJobId None (setJobStatus st message c))\<lparr>pendingJobRef := None\<rparr>"

definition ws_onmessage :: "Env \<Rightarrow> WsMessage \<Rightarrow> Controller \<Rightarrow> Controller" where
  "ws_onmessage env message c =
     (case message of
        WsStatus v \<Rightarrow>
          if v = ''queued'' then setJobStatus Queued None c
          else if v = ''running'' then setJobStatus Running None c
          else c
      | WsResultMsg m \<Rightarrow> jobEnded Done None (pushResult (wsResultItem env m) c)
      | WsError msg \<Rightarrow> jobEnded Error msg c
      | WsCancelled \<Rightarrow> jobEnded Cancelled None c
      | WsUnknown \<Rightarrow> c
      | WsMalformed \<Rightarrow> c)"

text \<open>The \<open>onopen\<close> handler: it subscribes to the active job of the store.\<close>

definition ws_onopen :: "Controller \<Rightarrow> Controller \<times> Effect list" where
  "ws_onopen c =
     (c\<lparr>wsOpen := True\<rparr>,
      if truthy (activeJobId c)
      then [WsSubscribe (nullish (activeJobId c) []) (if truthy (sessionId c) then sessionId c else None)]
      else [])"

text \<open>
  \<open>poll\<close> of the polling effect; \<open>j\<close> is the \<open>activeJobId\<close> the effect captured. The interval
  is cleared by the effect's cleanup, so \<open>poll\<close> never runs with \<open>cancelled\<close> set.
\<close>

definition poll_begin :: "string \<Rightarrow> Controller \<Rightarrow> Effect list" where
  "poll_begin j c = (if wsOpen c then [] else [GetStatus j])"

definition pollResultItem :: "Env \<Rightarrow> string \<Rightarrow> PollData \<Rightarrow> ResultItem" where
  "pollResultItem env j d =
     (let rel = nullish (p_result_url d) []
      in \<lparr>item_id = j, url = absoluteUrl env rel, relativeUrl = Some rel,
          seed = p_seed d, quality = nullish (p_quality_effective d) Normal,
          degraded = Some (p_quality_degraded d), downloadToken = p_download_token d\<rparr>)"

definition poll_resume :: "Env \<Rightarrow> string \<Rightarrow> PollData Fetched \<Rightarrow> Controller \<Rightarrow> Controller \<times> Effect list" where
  "poll_resume env j f c =
     (case f of
        Rejected e \<Rightarrow> (c, [])
      | Resolved response \<Rightarrow>
          if fst (redirectIfUnauthorized response)
          then (unauthorizedReset c, snd (redirectIfUnauthorized response))
          else if \<not> ok response then (c, [])
          else (case json response of
                  Inl e \<Rightarrow> (c, [])
                | Inr None \<Rightarrow> (c, [])
                | Inr (Some d) \<Rightarrow>
                    if p_job_id d \<noteq> Some j then (c, [])
                    else if p_status d = Some ''done'' \<and> p_result_url d \<noteq> None
                    then (jobEnded Done None (pushResult (pollResultItem env j d) c), [])
                    else if p_status d = Some ''error''
                    then (jobEnded Error
                            (Some (if truthy (p_error_message d) then nullish (p_error_message d) []
                                   else ''Generation failed'')) c, [])
                    else if p_status d = Some ''cancelled''
                    then (jobEnded Cancelled None c, [])
                    else if p_status d = Some ''queued'' then (setJobStatus Queued None c, [])
                    else if p_status d = Some ''running'' then (setJobStatus Running None c, [])
                    else (c, [])))"

subsection \<open>Actions\<close>

definition regenerate :: "Env \<Rightarrow> Controller \<Rightarrow> Controller \<times> Effect list" where
  "regenerate env c =
     (if \<not> truthy (lastSketchDataUrl c) then (c, [])
      else submitGeneration env (nullish (lastSketchDataUrl c) []) (lastCanvasDataUrl c) Normal None c)"

text \<open>\<open>currentResult?.seed\<close>.\<close>

definition currentSeed :: "Controller \<Rightarrow> int option" where
  "currentSeed c = (case currentResult c of None \<Rightarrow> None | Some r \<Rightarrow> seed r)"

definition improve :: "Env \<Rightarrow> Controller \<Rightarrow> Controller \<times> Effect list" where
  "improve env c =
     (if \<not> truthy (lastSketchDataUrl c) \<or> \<not> truthy_num (currentSeed c) then (c, [])
      else submitGeneration env (nullish (lastSketchDataUrl c) []) (lastCanvasDataUrl c) High
             (currentSeed c) c)"

definition undo_begin :: "Controller \<Rightarrow> Controller \<times> Effect list" where
  "undo_begin c = (c, [PostUndo])"

text \<open>
  \<open>undo\<close> from the settled call on. With a \<open>null\<close> body, \<open>data.result_id\<close> is read inside the
  callback of \<open>find\<close>, that is only when the history is not empty after \<open>removeLatestResult\<close>;
  the \<open>TypeError\<close> is then caught.
\<close>

definition undo_resume :: "Env \<Rightarrow> UndoData Fetched \<Rightarrow> Controller \<Rightarrow> Controller \<times> Effect list" where
  "undo_resume env f c =
     (case f of
        Rejected e \<Rightarrow> (setJobStatus Error (Some e) c, [])
      | Resolved response \<Rightarrow>
          if fst (redirectIfUnauthorized response)
          then (setJobStatus Idle None c, snd (redirectIfUnauthorized response))
          else if \<not> ok response
          then (setJobStatus Error (Some (nullish (error_message response) ''Undo failed'')) c, [])
          else (case json response of
                  Inl e \<Rightarrow> (setJobStatus Error (Some e) c, [])
                | Inr body \<Rightarrow>
                    (let c1 = removeLatestResult c;
                         updatedResults = results c1
                     in case body of
                          None \<Rightarrow>
                            if updatedResults = []
                            then (setJobStatus Done None (setCurrentResult None c1), [])
                            else (setJobStatus Error (Some (nullPropertyMessage env)) c1, [])
                        | Some data \<Rightarrow>
                            (let next = (case find (\<lambda>item. Some (item_id item) = u_result_id data) updatedResults of
                                           Some item \<Rightarrow> Some item
                                         | None \<Rightarrow> last_or_null updatedResults)
                             in (setJobStatus Done None (setCurrentResult next c1), [])))))"

definition applyResultToCanvas_begin :: "Controller \<Rightarrow> Controller \<times> Effect list" where
  "applyResultToCanvas_begin c =
     (case currentResult c of None \<Rightarrow> (c, []) | Some r \<Rightarrow> (c, [PostApplyResult (url r)]))"

definition applyResultToCanvas_resume :: "Env \<Rightarrow> ApplyData Fetched \<Rightarrow> Controller \<Rightarrow> Controller \<times> Effect list" where
  "applyResultToCanvas_resume env f c =
     (case f of
        Rejected e \<Rightarrow> (setJobStatus Error (Some e) c, [])
      | Resolved response \<Rightarrow>
          if fst (redirectIfUnauthorized response)
          then (setJobStatus Idle None c, snd (redirectIfUnauthorized response))
          else if \<not> ok response
          then (setJobStatus Error (Some (nullish (error_message response) ''Apply failed'')) c, [])
          else (case json response of
                  Inl e \<Rightarrow> (setJobStatus Error (Some e) c, [])
                | Inr None \<Rightarrow> (setJobStatus Error (Some (nullPropertyMessage env)) c, [])
                | Inr (Some data) \<Rightarrow>
                    (setJobStatus Idle None
                       (requestClearSketch
                          (setBaseImage (Some \<lparr>image_id = a_image_id data, image_url = a_url data,
                                                placeholderSlot = None\<rparr>) c)), [])))"

subsection \<open>Effects\<close>

text \<open>
  The hook's effects, in the order React runs them after a render. \<open>a\<close> and \<open>st\<close> are the
  \<open>activeJobId\<close> and \<open>jobStatus\<close> of that render; the refs are read when the effect runs.
\<close>

definition subscribeEffect :: "string option \<Rightarrow> Controller \<Rightarrow> Controller \<times> Effect list" where
  "subscribeEffect a c =
     (if \<not> wsOpen c then (c, [])
      else if truthy a \<and> pendingJobRef c \<noteq> a
      then (c\<lparr>pendingJobRef := a\<rparr>,
            [WsSubscribe (nullish a []) (if truthy (sessionId c) then sessionId c else None)])
      else (c, []))"

definition replayEffect :: "Env \<Rightarrow> JobStatus \<Rightarrow> Controller \<Rightarrow> Controller \<times> Effect list" where
  "replayEffect env st c =
     (let previous = lastJobStatusRef c;
          c1 = c\<lparr>lastJobStatusRef := st\<rparr>;
          wasGenerating = (previous = Queued \<or> previous = Running);
          nowGenerating = (st = Queued \<or> st = Running);
          c2 = (if \<not> nowGenerating then c1\<lparr>cancellationRequestedRef := False\<rparr> else c1)
      in if wasGenerating \<and> \<not> nowGenerating
         then (case pendingGenerationRef c2 of
                 None \<Rightarrow> (c2, [])
               | Some pending \<Rightarrow> executeGeneration_begin env pending (c2\<lparr>pendingGenerationRef := None\<rparr>))
         else (c2, []))"

definition cancelEffect :: "string option \<Rightarrow> JobStatus \<Rightarrow> Controller \<Rightarrow> Controller \<times> Effect list" where
  "cancelEffect a st c =
     (if pendingGenerationRef c = None then (c, [])
      else if \<not> truthy a then (c, [])
      else if st \<noteq> Queued \<and> st \<noteq> Running then (c, [])
      else requestCancellation_begin a c)"

text \<open>
  The polling effect: its cleanup clears the interval of the previous run; the new run
  returns early, or calls \<open>poll\<close> once and registers an interval that captures \<open>a\<close>.
\<close>

definition pollEffect :: "string option \<Rightarrow> JobStatus \<Rightarrow> Controller \<Rightarrow> Controller \<times> Effect list" where
  "pollEffect a st c =
     (if \<not> truthy a then (c\<lparr>pollTimer := None\<rparr>, [])
      else if st \<noteq> Queued \<and> st \<noteq> Running then (c\<lparr>pollTimer := None\<rparr>, [])
      else (c\<lparr>pollTimer := a\<rparr>, poll_begin (nullish a []) c))"

text \<open>A tick of the registered interval.\<close>

definition pollTick :: "Controller \<Rightarrow> Effect list" where
  "pollTick c = (case pollTimer c of None \<Rightarrow> [] | Some j \<Rightarrow> poll_begin j c)"

text \<open>
  One render and its effects. The replay effect depends on \<open>executeGeneration\<close>, which is a
  new function at every render (it depends on \<open>t\<close>), so it runs every time; the
  subscription effect runs when \<open>activeJobId\<close> has changed, the cancellation and polling
  effects when \<open>activeJobId\<close> or \<open>jobStatus\<close> has.
\<close>

definition render_pass :: "Env \<Rightarrow> Controller \<Rightarrow> Controller \<times> Effect list" where
  "render_pass env c =
     (let a = activeJobId c;
          st = jobStatus c;
          idChanged = (a \<noteq> fst (renderedDeps c));
          depsChanged = ((a, st) \<noteq> renderedDeps c);
          r2 = (if idChanged then subscribeEffect a c else (c, []));
          r3 = replayEffect env st (fst r2);
          r4 = (if depsChanged then cancelEffect a st (fst r3) else (fst r3, []));
          r5 = (if depsChanged then pollEffect a st (fst r4) else (fst r4, []))
      in ((fst r5)\<lparr>renderedDeps := (a, st)\<rparr>, snd r2 @ snd r3 @ snd r4 @ snd r5))"

text \<open>
  A store update made by an effect causes one more render. The second render changes
  neither \<open>activeJobId\<close> nor \<open>jobStatus\<close>, so two passes reach the state the hook rests in.
\<close>

definition run_effects :: "Env \<Rightarrow> Controller \<Rightarrow> Controller \<times> Effect list" where
  "run_effects env c =
     (let r1 = render_pass env c;
          r2 = render_pass env (fst r1)
      in (fst r2, snd r1 @ snd r2))"

subsection \<open>Events\<close>

text \<open>
  \<open>Submit\<close> is a call of \<open>submitGeneration\<close> through the callback of the current render,
  \<open>SubmitCaptured\<close> a call through a callback captured in a render with the given values.
\<close>

datatype Event =
    Submit string "string option" Quality "int option"
  | SubmitCaptured Render string "string option" Quality "int option"
  | Regenerate
  | Improve
  | Undo
  | ApplyResultToCanvas
  | GenerateSettled "GenerateData Fetched"
  | CancelSettled "unit Fetched"
  | UndoSettled "UndoData Fetched"
  | ApplySettled "ApplyData Fetched"
  | PollTick
  | PollSettled string "PollData Fetched"
  | WsOpened
  | WsClosed
  | WsReceived WsMessage
  | BaseImageSet "BaseImage option"
  | HistoryReset

definition handle :: "Env \<Rightarrow> Event \<Rightarrow> Controller \<Rightarrow> Controller \<times> Effect list" where
  "handle env ev c =
     (case ev of
        Submit sketch canvas q sd \<Rightarrow> submitGeneration env sketch canvas q sd c
      | SubmitCaptured rn sketch canvas q sd \<Rightarrow> submitGeneration_captured env rn sketch canvas q sd c
      | Regenerate \<Rightarrow> regenerate env c
      | Improve \<Rightarrow> improve env c
      | Undo \<Rightarrow> undo_begin c
      | ApplyResultToCanvas \<Rightarrow> applyResultToCanvas_begin c
      | GenerateSettled f \<Rightarrow> executeGeneration_resume env f c
      | CancelSettled f \<Rightarrow> requestCancellation_resume f c
      | UndoSettled f \<Rightarrow> undo_resume env f c
      | ApplySettled f \<Rightarrow> applyResultToCanvas_resume env f c
      | PollTick \<Rightarrow> (c, pollTick c)
      | PollSettled j f \<Rightarrow> poll_resume env j f c
      | WsOpened \<Rightarrow> ws_onopen c
      | WsClosed \<Rightarrow> (c\<lparr>wsOpen := False\<rparr>, [])
      | WsReceived m \<Rightarrow> (ws_onmessage env m c, [])
      | BaseImageSet b \<Rightarrow> (setBaseImage b c, [])
      | HistoryReset \<Rightarrow> (resetHistory c, []))"

text \<open>One event: its handler, then the renders it causes.\<close>

definition step :: "Env \<Rightarrow> Event \<Rightarrow> Controller \<Rightarrow> Controller \<times> Effect list" where
  "step env ev c =
     (let r1 = handle env ev c;
          r2 = run_effects env (fst r1)
      in (fst r2, snd r1 @ snd r2))"

fun run :: "Env \<Rightarrow> Event list \<Rightarrow> Controller \<Rightarrow> Controller \<times> Effect list" where
  "run env [] c = (c, [])"
| "run env (ev # evs) c =
     (let r1 = step env ev c;
          r2 = run env evs (fst r1)
      in (fst r2, snd r1 @ snd r2))"

text \<open>The store and the refs when the hook is mounted.\<close>

definition initial :: Controller where
  "initial =
     \<lparr>prompt = [], baseImage = None, results = [], currentResult = None, jobStatus = Idle,
      jobMessage = None, activeJobId = None, lastSketchDataUrl = None, lastCanvasDataUrl = None,
      clearSketchVersion = 0, sessionId = None,
      pendingJobRef = None, pendingGenerationRef = None, cancellationRequestedRef = False,
      lastJobStatusRef = Idle, wsOpen = False, renderedDeps = (None, Idle), pollTimer = None\<rparr>"

subsection \<open>Properties of states\<close>

text \<open>The invariant the specification states for the active job.\<close>

definition activeJob_iff_busy :: "'a State_scheme \<Rightarrow> bool" where
  "activeJob_iff_busy s = (activeJobId s \<noteq> None \<longleftrightarrow> isGenerating (jobStatus s))"

definition terminal :: "WsMessage \<Rightarrow> bool" where
  "terminal m = (case m of WsResultMsg r \<Rightarrow> True | WsError e \<Rightarrow> True | WsCancelled \<Rightarrow> True | _ \<Rightarrow> False)"

text \<open>The cancel calls and the create-job calls among the calls issued, in order.\<close>

definition cancel_calls :: "Effect list \<Rightarrow> string list" where
  "cancel_calls fx = concat (map (\<lambda>e. case e of PostCancel j \<Rightarrow> [j] | _ \<Rightarrow> []) fx)"

definition create_calls :: "Effect list \<Rightarrow> GenerateForm list" where
  "create_calls fx = concat (map (\<lambda>e. case e of PostGenerate f \<Rightarrow> [f] | _ \<Rightarrow> []) fx)"

text \<open>
  What \<open>undo\<close> makes the current result: the remaining entry with the id the server
  answered, if there is one, else the last remaining entry, else \<open>null\<close>.
\<close>

definition undo_next :: "string option \<Rightarrow> ResultItem list \<Rightarrow> ResultItem option" where
  "undo_next rid remaining =
     (case find (\<lambda>x. Some (item_id x) = rid) remaining of
        Some x \<Rightarrow> Some x
      | None \<Rightarrow> last_or_null remaining)"

text \<open>
  The body of a settled create-job call that \<open>executeGeneration\<close> reads the job id from:
  the call was answered 2xx with a body that is not \<open>null\<close> and does not say \<open>skipped\<close>.
\<close>

definition job_created :: "GenerateData Fetched \<Rightarrow> GenerateData option" where
  "job_created f =
     (case f of
        Rejected e \<Rightarrow> None
      | Resolved r \<Rightarrow>
          if status r = 401 \<or> \<not> ok r then None
          else (case json r of
                  Inr (Some d) \<Rightarrow> if g_status d = Some ''skipped'' then None else Some d
                | _ \<Rightarrow> None))"

text \<open>A poll answer for job \<open>j\<close> that reports the end of the job.\<close>

definition poll_terminal :: "string \<Rightarrow> PollData Fetched \<Rightarrow> bool" where
  "poll_terminal j f =
     (case f of
        Rejected e \<Rightarrow> False
      | Resolved r \<Rightarrow>
          status r \<noteq> 401 \<and> ok r \<and>
          (case json r of
             Inr (Some d) \<Rightarrow>
               p_job_id d = Some j \<and>
               (p_status d = Some ''done'' \<and> p_result_url d \<noteq> None
                \<or> p_status d = Some ''error'' \<or> p_status d = Some ''cancelled'')
           | _ \<Rightarrow> False))"

text \<open>An event that reports the end of job \<open>j\<close>, on the push channel or in a poll answer.\<close>

definition terminal_event :: "string \<Rightarrow> Event \<Rightarrow> bool" where
  "terminal_event j ev =
     (case ev of
        WsReceived m \<Rightarrow> terminal m
      | PollSettled k f \<Rightarrow> k = j \<and> poll_terminal j f
      | _ \<Rightarrow> False)"

text \<open>A cancel call that failed: rejected, or answered with a status that is not 2xx.\<close>

definition cancel_failure :: "unit Fetched \<Rightarrow> bool" where
  "cancel_failure f = (case f of Rejected e \<Rightarrow> True | Resolved r \<Rightarrow> \<not> ok r)"

text \<open>
  The effects of the last render have run: the dependencies React holds and
  \<open>lastJobStatusRef\<close> are those of the state.
\<close>

definition settled :: "Controller \<Rightarrow> bool" where
  "settled c = (renderedDeps c = (activeJobId c, jobStatus c) \<and> lastJobStatusRef c = jobStatus c)"

text \<open>
  A busy period is a run of events during which the status stays busy. It starts in a state
  with a busy status, nothing pending and the cancellation flag reset; each of its events
  is handled with the callbacks of the current render and leaves a busy status.
\<close>

definition period_start :: "Controller \<Rightarrow> bool" where
  "period_start c =
     (settled c \<and> isGenerating (jobStatus c) \<and> pendingGenerationRef c = None
      \<and> \<not> cancellationRequestedRef c)"

definition current_callback :: "Event \<Rightarrow> bool" where
  "current_callback ev = (case ev of SubmitCaptured rn sk cv q sd \<Rightarrow> False | _ \<Rightarrow> True)"

definition keeps_busy :: "Env \<Rightarrow> Event \<Rightarrow> Controller \<Rightarrow> bool" where
  "keeps_busy env ev c = (current_callback ev \<and> isGenerating (jobStatus (fst (handle env ev c))))"

fun busy_period :: "Env \<Rightarrow> Event list \<Rightarrow> Controller \<Rightarrow> bool" where
  "busy_period env [] c = True"
| "busy_period env (ev # evs) c = (keeps_busy env ev c \<and> busy_period env evs (fst (step env ev c)))"

text \<open>
  What holds between the events of a run whose events are handled with the callbacks of
  the current render: the effects have run, and outside a busy period nothing is pending
  and the cancellation flag is reset. An event is the boundary before a busy period when
  the status is busy after it and it does not continue a busy period.
\<close>

definition at_rest :: "Controller \<Rightarrow> bool" where
  "at_rest c =
     (settled c
      \<and> (isGenerating (jobStatus c)
          \<or> pendingGenerationRef c = None \<and> cancellationRequestedRef c = False))"

definition period_boundary :: "Env \<Rightarrow> Event \<Rightarrow> Controller \<Rightarrow> bool" where
  "period_boundary env ev c =
     (isGenerating (jobStatus (fst (step env ev c)))
      \<and> (if isGenerating (jobStatus c) then \<not> keeps_busy env ev c else True))"

fun current_callbacks :: "Event list \<Rightarrow> bool" where
  "current_callbacks [] = True"
| "current_callbacks (ev # evs) = (current_callback ev \<and> current_callbacks evs)"

text \<open>
  The payload with which an event invokes \<open>submitGeneration\<close> and passes its two guards, and
  the payload of the last such event of a run.
\<close>

definition submission_of :: "Event \<Rightarrow> Controller \<Rightarrow> PendingGeneration option" where
  "submission_of ev c =
     (case ev of
        Submit sk cv q sd \<Rightarrow>
          if sk \<noteq> [] \<and> baseImage c \<noteq> None
          then Some \<lparr>sketchDataUrl = sk, canvasDataUrl = cv, pg_quality = q, pg_seed = sd\<rparr>
          else None
      | Regenerate \<Rightarrow>
          if truthy (lastSketchDataUrl c) \<and> baseImage c \<noteq> None
          then Some \<lparr>sketchDataUrl = nullish (lastSketchDataUrl c) [],
                     canvasDataUrl = lastCanvasDataUrl c, pg_quality = Normal, pg_seed = None\<rparr>
          else None
      | Improve \<Rightarrow>
          if truthy (lastSketchDataUrl c) \<and> truthy_num (currentSeed c) \<and> baseImage c \<noteq> None
          then Some \<lparr>sketchDataUrl = nullish (lastSketchDataUrl c) [],
                     canvasDataUrl = lastCanvasDataUrl c, pg_quality = High,
                     pg_seed = currentSeed c\<rparr>
          else None
      | _ \<Rightarrow> None)"

fun last_submission :: "Env \<Rightarrow> Event list \<Rightarrow> Controller \<Rightarrow> PendingGeneration option" where
  "last_submission env [] c = None"
| "last_submission env (ev # evs) c =
     (case last_submission env evs (fst (step env ev c)) of
        Some p \<Rightarrow> Some p
      | None \<Rightarrow> submission_of ev c)"

text \<open>
  The create-job calls that sending a pending generation produces: one, built from the
  payload, when a base image is set and the data URLs convert; none otherwise.
\<close>

definition replay_calls :: "Env \<Rightarrow> PendingGeneration option \<Rightarrow> Controller \<Rightarrow> GenerateForm list" where
  "replay_calls env pending c =
     (case pending of
        None \<Rightarrow> []
      | Some p \<Rightarrow>
          (case baseImage c of
             None \<Rightarrow> []
           | Some base \<Rightarrow>
               (case convertBlobs env p of
                  Inl e \<Rightarrow> []
                | Inr blobs \<Rightarrow> [buildForm env base (prompt c) p blobs])))"

text \<open>The interval that the polling effect registers for a render.\<close>

definition poll_guard :: "string option \<Rightarrow> JobStatus \<Rightarrow> string option" where
  "poll_guard a st = (if truthy a \<and> (st = Queued \<or> st = Running) then a else None)"

definition timer_synced :: "Controller \<Rightarrow> bool" where
  "timer_synced c = (pollTimer c = poll_guard (fst (renderedDeps c)) (snd (renderedDeps c)))"

subsection \<open>Concrete values\<close>

text \<open>A browser environment, a base image, two sketches and three results, for the examples.\<close>

definition env0 :: Env where
  "env0 = \<lparr>apiOrigin = Some ''http://localhost:8000'', t = (\<lambda>key. key), language = ''en'',
           atob = (\<lambda>payload. Inr payload), nullPropertyMessage = ''Cannot read properties of null''\<rparr>"

definition base0 :: BaseImage where
  "base0 = \<lparr>image_id = ''img-1'', image_url = ''/assets/pattern1.png'', placeholderSlot = None\<rparr>"

definition sketch1 :: string where
  "sketch1 = ''data:image/png;base64,AAAA''"

definition sketch2 :: string where
  "sketch2 = ''data:image/png;base64,BBBB''"

definition item :: "string \<Rightarrow> int option \<Rightarrow> ResultItem" where
  "item i sd = \<lparr>item_id = i, url = ''http://localhost:8000/r/'' @ i, relativeUrl = Some (''/r/'' @ i),
               seed = sd, quality = Normal, degraded = Some False, downloadToken = None\<rparr>"

definition http :: "nat \<Rightarrow> 'd option \<Rightarrow> 'd Fetched" where
  "http code body = Resolved \<lparr>status = code, error_message = None, json = Inr body\<rparr>"

definition created :: "string \<Rightarrow> GenerateData" where
  "created j = \<lparr>g_status = Some ''queued'', g_job_id = Some j, g_quality_degraded = False\<rparr>"

definition skipped :: GenerateData where
  "skipped = \<lparr>g_status = Some ''skipped'', g_job_id = None, g_quality_degraded = False\<rparr>"

definition form0 :: "string \<Rightarrow> GenerateForm" where
  "form0 sketch = \<lparr>base_image_id = ''img-1'', form_prompt = [], ui_language = ''en'',
                   form_quality = Normal, form_seed = None,
                   sketch_png = \<lparr>blob_header = takeWhile (\<lambda>ch. ch \<noteq> CHR '','') sketch,
                                 blob_bytes = tl (dropWhile (\<lambda>ch. ch \<noteq> CHR '','') sketch)\<rparr>,
                   canvas_png = None\<rparr>"

definition submit1 :: Event where
  "submit1 = Submit sketch1 None Normal None"

definition submit2 :: Event where
  "submit2 = Submit sketch2 None Normal None"

definition result1 :: WsMessage where
  "result1 = WsResultMsg \<lparr>w_job_id = ''job-1'', w_result_url = Some ''/r/1.png'', w_seed = None,
                           w_quality_effective = None, w_quality_degraded = False,
                           w_download_token = None\<rparr>"

text \<open>A history of three results, the newest being current.\<close>

definition three_results :: Controller where
  "three_results =
     initial\<lparr>results := [item ''r1'' None, item ''r2'' None, item ''r3'' None],
             currentResult := Some (item ''r3'' None)\<rparr>"

text \<open>The first submission has been sent and its answer has not arrived yet.\<close>

definition in_flight :: "Event list" where
  "in_flight = [BaseImageSet (Some base0), submit1]"

text \<open>Job \<open>job-1\<close> is active.\<close>

definition job1_active :: "Event list" where
  "job1_active = in_flight @ [GenerateSettled (http 200 (Some (created ''job-1'')))]"

text \<open>A second submission while job-1 is active, and the cancel call then fails.\<close>

definition cancel_failed :: "Event list" where
  "cancel_failed = job1_active @ [submit2, CancelSettled (http 500 None)]"

text \<open>A second submission while job-1 is active; the job is cancelled and the replay is sent.\<close>

definition replayed :: "Event list" where
  "replayed = job1_active @ [submit2, WsReceived WsCancelled]"

text \<open>A second submission before the first is acknowledged, which the server then skips.\<close>

definition resubmitted_in_flight :: "Event list" where
  "resubmitted_in_flight = in_flight @ [submit2, GenerateSettled (http 200 (Some skipped))]"

definition after :: "Event list \<Rightarrow> Controller" where
  "after evs = fst (run env0 evs initial)"

definition calls :: "Event list \<Rightarrow> Effect list" where
  "calls evs = snd (run env0 evs initial)"

definition poll_answer :: "string \<Rightarrow> string \<Rightarrow> PollData" where
  "poll_answer j st =
     \<lparr>p_job_id = Some j, p_status = Some st, p_result_url = Some ''/r/3.png'', p_seed = None,
      p_quality_effective = None, p_quality_degraded = False, p_download_token = Some ''tok'',
      p_error_message = None\<rparr>"

definition payload1 :: PendingGeneration where
  "payload1 = \<lparr>sketchDataUrl = sketch1, canvasDataUrl = None, pg_quality = Normal, pg_seed = None\<rparr>"

definition payload2 :: PendingGeneration where
  "payload2 = \<lparr>sketchDataUrl = sketch2, canvasDataUrl = None, pg_quality = Normal, pg_seed = None\<rparr>"

text \<open>
  A callback of the render that followed the choice of the base image, invoked after job-1
  has become active: the canvas calls the callback its timer captured.
\<close>

definition idle_render :: Render where
  "idle_render = rendered (after [BaseImageSet (Some base0)])"

definition resubmitted_stale :: "Event list" where
  "resubmitted_stale = job1_active @ [SubmitCaptured idle_render sketch2 None Normal None]"

text \<open>
  A busy period that begins while the first create-job call is in flight: a second
  submission, the answer of the first call, a status message, and a third submission.
\<close>

definition period1 :: "Event list" where
  "period1 = [submit2, GenerateSettled (http 200 (Some (created ''job-1''))),
              WsReceived (WsStatus ''running''), submit1]"

text \<open>
  The replayed submission is in flight when a second \<open>cancelled\<close> message arrives; its
  create-job call is then answered with the id of job-2.
\<close>

definition late_answer :: "Event list" where
  "late_answer = replayed @ [WsReceived WsCancelled, GenerateSettled (http 200 (Some (created ''job-2'')))]"
section \<open>Callbacks of the current render\<close>

lemma rendered_simps [simp]:
  "r_baseImage (rendered c) = baseImage c"
  "r_prompt (rendered c) = prompt c"
  "r_jobStatus (rendered c) = jobStatus c"
  "r_activeJobId (rendered c) = activeJobId c"
  by (simp_all add: rendered_def)

lemma rendered_refs [simp]:
  "rendered (c\<lparr>pendingGenerationRef := x\<rparr>) = rendered c"
  "rendered (c\<lparr>cancellationRequestedRef := y\<rparr>) = rendered c"
  "rendered (c\<lparr>lastJobStatusRef := z\<rparr>) = rendered c"
  by (simp_all add: rendered_def)

text \<open>The callbacks of the current render, written on the state alone.\<close>

lemma executeGeneration_begin_unfold:
  "executeGeneration_begin env p c =
     (case baseImage c of
        None \<Rightarrow> (setJobStatus Error (Some (t env ''ui.errors.base_required'')) c, [])
      | Some base \<Rightarrow>
          (case convertBlobs env p of
             Inl e \<Rightarrow> (generationFailed e c, [])
           | Inr blobs \<Rightarrow>
               (let formData = buildForm env base (prompt c) p blobs;
                    c1 = setJobStatus Queued None c;
                    c2 = setLastSketch (Some (sketchDataUrl p)) (canvasDataUrl p) c1
                in (c2, [PostGenerate formData]))))"
  by (simp add: executeGeneration_begin_def executeGeneration_captured_def Let_def
      split: option.split sum.split)

lemma submitGeneration_unfold:
  "submitGeneration env sketch canvas q sd c =
     (if sketch = [] then (c, [])
      else if baseImage c = None
      then (setJobStatus Error (Some (t env ''ui.errors.base_required'')) c, [])
      else (let payload = \<lparr>sketchDataUrl = sketch, canvasDataUrl = canvas, pg_quality = q, pg_seed = sd\<rparr>
            in if jobStatus c = Queued \<or> jobStatus c = Running
               then requestCancellation_begin (activeJobId c) (c\<lparr>pendingGenerationRef := Some payload\<rparr>)
               else executeGeneration_begin env payload (c\<lparr>pendingGenerationRef := None\<rparr>)))"
  by (simp add: submitGeneration_def submitGeneration_captured_def executeGeneration_begin_def
      Let_def)

text \<open>A captured callback that is invoked in the render it was created in is the current one.\<close>

lemma submit_current_callback:
  "handle env (SubmitCaptured (rendered c) sk cv q sd) c = handle env (Submit sk cv q sd) c"
  by (simp add: handle_def submitGeneration_def)
section \<open>Result history\<close>

lemma remove_same_id_filter:
  "remove_same_id i xs = filter (\<lambda>item. item_id item \<noteq> i) xs"
  by (induction xs) auto

lemma evict_oldest_drop: "evict_oldest cap xs = drop (length xs - cap) xs"
proof (induction xs)
  case Nil
  show ?case by simp
next
  case (Cons x xs)
  show ?case
  proof (cases "cap < length (x # xs)")
    case True
    then have "length (x # xs) - cap = Suc (length xs - cap)" by simp
    with True Cons show ?thesis by simp
  next
    case False
    then show ?thesis by simp
  qed
qed

lemma slice_last_length: "length (slice_last n xs) \<le> n"
  by (simp add: slice_last_def)

lemma results_pushResult:
  "results (pushResult r s) = slice_last 5 (filter (\<lambda>item. item_id item \<noteq> item_id r) (results s) @ [r])"
  by (simp add: pushResult_def Let_def)

lemma filter_present_shorter:
  assumes "x \<in> set xs" and "\<not> P x"
  shows "length (filter P xs) < length xs"
  using assms by (induction xs) (auto simp: less_Suc_eq_le)

text \<open>
  Claim C4. For every history and every pushed item, \<open>pushResult\<close> is the reference
  operation (remove the entry with the same id, append, keep the most recent five, make the
  item current); hence the history never holds more than five entries, and pushing an item
  whose id is already present does not make the history longer.
\<close>

theorem pushResult_refines_spec:
  "pushResult r s = s\<lparr>results := push_spec r (results s), currentResult := Some r\<rparr>
   \<and> length (results (pushResult r s)) \<le> 5
   \<and> ((\<exists>x \<in> set (results s). item_id x = item_id r) \<longrightarrow>
        length (results (pushResult r s)) \<le> length (results s))"
proof (intro conjI impI)
  show "pushResult r s = s\<lparr>results := push_spec r (results s), currentResult := Some r\<rparr>"
    by (simp add: pushResult_def push_spec_def Let_def slice_last_def
        evict_oldest_drop remove_same_id_filter)
  show "length (results (pushResult r s)) \<le> 5"
    by (simp add: results_pushResult slice_last_length)
  assume "\<exists>x \<in> set (results s). item_id x = item_id r"
  then obtain x where x: "x \<in> set (results s)" "item_id x = item_id r" by blast
  then have "length (filter (\<lambda>item. item_id item \<noteq> item_id r) (results s)) < length (results s)"
    using filter_present_shorter [of x "results s" "\<lambda>item. item_id item \<noteq> item_id r"] by simp
  then show "length (results (pushResult r s)) \<le> length (results s)"
    by (simp add: results_pushResult slice_last_def)
qed

theorem pushResult_refines_spec_witness:
  "(\<exists>x \<in> set (results (pushResult (item ''a'' None) initial)). item_id x = item_id (item ''a'' (Some 7)))
   \<and> length (results (pushResult (item ''a'' (Some 7)) (pushResult (item ''a'' None) initial)))
       \<le> length (results (pushResult (item ''a'' None) initial))"
proof -
  have present: "\<exists>x \<in> set (results (pushResult (item ''a'' None) initial)).
      item_id x = item_id (item ''a'' (Some 7))"
    by (simp add: pushResult_def initial_def item_def slice_last_def)
  with pushResult_refines_spec [of "item ''a'' (Some 7)" "pushResult (item ''a'' None) initial"]
  show ?thesis by blast
qed

text \<open>Pushing the same item twice is pushing it once.\<close>

lemma slice_last_short: "length xs \<le> n \<Longrightarrow> slice_last n xs = xs"
  by (simp add: slice_last_def)

lemma filter_drop_filter: "filter P (drop k (filter P xs)) = drop k (filter P xs)"
  by (rule filter_True) (auto dest: in_set_dropD)

lemma pushResult_idempotent: "pushResult r (pushResult r s) = pushResult r s"
proof -
  let ?P = "\<lambda>x. item_id x \<noteq> item_id r"
  let ?F = "filter ?P (results s)"
  let ?k = "length (?F @ [r]) - 5"
  have k: "?k \<le> length ?F" by simp
  have T: "results (pushResult r s) = drop ?k ?F @ [r]"
    using k by (simp add: results_pushResult slice_last_def)
  have "filter ?P (results (pushResult r s)) @ [r] = drop ?k ?F @ [r]"
    by (simp add: T filter_drop_filter)
  moreover have "length (drop ?k ?F @ [r]) \<le> 5" by simp
  ultimately have "slice_last 5 (filter ?P (results (pushResult r s)) @ [r]) = results (pushResult r s)"
    by (simp only: T slice_last_short)
  then show ?thesis
    by (simp add: pushResult_def Let_def)
qed

section \<open>Guards of submission and of the actions\<close>

text \<open>
  Claim C9. A call of \<open>submitGeneration\<close> with the empty string as sketch payload returns
  at once: no field of the store and no ref changes and no call is issued, whatever the
  state is, also when no base image is set (no error status is raised).
\<close>

theorem submitGeneration_empty_sketch:
  "submitGeneration env [] canvas q sd c = (c, [])"
  by (simp add: submitGeneration_unfold)

text \<open>
  Claim C10. The seed guard of \<open>improve\<close> tests falsiness: \<open>improve\<close> changes nothing and
  issues no call when the current result has no seed, and also when its seed is 0.
\<close>

theorem improve_falsy_seed_noop:
  assumes "currentResult c = Some r" and "seed r = None \<or> seed r = Some 0"
  shows "improve env c = (c, [])"
  using assms by (auto simp: improve_def currentSeed_def truthy_num_def)

theorem improve_falsy_seed_noop_witness:
  "improve env0 (initial\<lparr>baseImage := Some base0, currentResult := Some (item ''job-1'' (Some 0)),
                         lastSketchDataUrl := Some sketch1\<rparr>)
   = (initial\<lparr>baseImage := Some base0, currentResult := Some (item ''job-1'' (Some 0)),
              lastSketchDataUrl := Some sketch1\<rparr>, [])"
  by (rule improve_falsy_seed_noop [where r = "item ''job-1'' (Some 0)"])
     (simp_all add: item_def)

lemma create_calls_Nil [simp]: "create_calls [] = []"
  by (simp add: create_calls_def)

lemma cancel_calls_Nil [simp]: "cancel_calls [] = []"
  by (simp add: cancel_calls_def)

lemma create_calls_Cons [simp]:
  "create_calls (e # fx) = (case e of PostGenerate f \<Rightarrow> [f] | _ \<Rightarrow> []) @ create_calls fx"
  by (simp add: create_calls_def)

lemma cancel_calls_Cons [simp]:
  "cancel_calls (e # fx) = (case e of PostCancel j \<Rightarrow> [j] | _ \<Rightarrow> []) @ cancel_calls fx"
  by (simp add: cancel_calls_def)

lemma create_calls_append [simp]: "create_calls (xs @ ys) = create_calls xs @ create_calls ys"
  by (simp add: create_calls_def)

lemma cancel_calls_append [simp]: "cancel_calls (xs @ ys) = cancel_calls xs @ cancel_calls ys"
  by (simp add: cancel_calls_def)

text \<open>
  Claim C5, as stated, fails: a submission with the empty sketch payload returns before the
  base image is looked at, so with no base image it raises no error status.
\<close>

theorem base_image_guard_counterexample:
  "baseImage initial = None
   \<and> jobStatus (fst (submitGeneration env0 [] None Normal None initial)) \<noteq> Error"
  by (simp add: submitGeneration_unfold initial_def)

text \<open>
  Claim C5, amended. While no base image is set, a submission with a non-empty sketch
  payload, and every run of \<open>executeGeneration\<close>, ends at once with status \<open>error\<close> and the
  localized base-required message, and issues no call; no submission at all, the empty one
  included, issues a create-job call.
\<close>

theorem base_image_required:
  assumes "baseImage c = None"
  shows "(sketch \<noteq> [] \<longrightarrow>
            submitGeneration env sketch canvas q sd c
              = (setJobStatus Error (Some (t env ''ui.errors.base_required'')) c, []))
         \<and> executeGeneration_begin env p c
              = (setJobStatus Error (Some (t env ''ui.errors.base_required'')) c, [])
         \<and> create_calls (snd (submitGeneration env sketch canvas q sd c)) = []"
  using assms by (simp add: submitGeneration_unfold executeGeneration_begin_unfold)

theorem base_image_required_witness:
  "baseImage initial = None \<and> sketch1 \<noteq> []
   \<and> jobStatus (fst (submitGeneration env0 sketch1 None Normal None initial)) = Error
   \<and> jobMessage (fst (submitGeneration env0 sketch1 None Normal None initial))
       = Some ''ui.errors.base_required''
   \<and> snd (submitGeneration env0 sketch1 None Normal None initial) = []"
proof -
  have b: "baseImage initial = None" by (simp add: initial_def)
  have s: "sketch1 \<noteq> []" by (simp add: sketch1_def)
  from base_image_required [OF b, of sketch1 env0 None Normal None] s
  show ?thesis using b by (simp add: setJobStatus_def env0_def)
qed

section \<open>Undo\<close>

lemma slice_but_last_butlast: "slice_but_last xs = butlast xs"
  by (simp add: slice_but_last_def butlast_conv_take)

lemma results_removeLatestResult: "results (removeLatestResult s) = butlast (results s)"
  by (simp add: removeLatestResult_def Let_def slice_but_last_butlast)

text \<open>
  Claim C8, as stated, fails twice. With the history r1, r2, r3 and the server answering
  \<open>result_id = r1\<close>, the current result becomes r1, not the remaining last entry r2. And a
  call answered 401, which is not 2xx, leaves status \<open>idle\<close>, not \<open>error\<close>.
\<close>

theorem undo_counterexample:
  "currentResult (fst (undo_resume env0 (http 200 (Some \<lparr>u_result_id = Some ''r1''\<rparr>)) three_results))
     = Some (item ''r1'' None)
   \<and> last_or_null (results (fst (undo_resume env0 (http 200 (Some \<lparr>u_result_id = Some ''r1''\<rparr>)) three_results)))
     = Some (item ''r2'' None)
   \<and> item ''r1'' None \<noteq> item ''r2'' None
   \<and> \<not> ok \<lparr>status = 401, error_message = None, json = Inr (None :: UndoData option)\<rparr>
   \<and> jobStatus (fst (undo_resume env0 (http 401 None) three_results)) = Idle"
  by code_simp

text \<open>
  Claim C8, amended. When the undo call succeeds with a body, the newest history entry is
  removed, the current result becomes the remaining entry whose id is the \<open>result_id\<close> of
  the answer, if there is one, and otherwise the remaining last entry (\<open>null\<close> on an empty
  history), and status is \<open>done\<close>. When the call is answered 401, status is \<open>idle\<close> and the
  login redirect is invoked. When the call is rejected, is answered with another non-2xx
  status, or its body cannot be read, status is \<open>error\<close>. In the last two cases the history
  and the current result are unchanged.
\<close>

theorem undo_outcomes:
  "(ok r \<and> json r = Inr (Some d) \<longrightarrow>
      undo_resume env (Resolved r) c
        = (c\<lparr>results := butlast (results c),
              currentResult := undo_next (u_result_id d) (butlast (results c)),
              jobStatus := Done, jobMessage := None\<rparr>, []))
   \<and> (status r = 401 \<longrightarrow>
      undo_resume env (Resolved r) c
        = (c\<lparr>jobStatus := Idle, jobMessage := None\<rparr>, [RedirectToLogin]))
   \<and> ((f = Rejected e \<or> f = Resolved r \<and> status r \<noteq> 401 \<and> (\<not> ok r \<or> json r = Inl e)) \<longrightarrow>
      jobStatus (fst (undo_resume env f c)) = Error
      \<and> results (fst (undo_resume env f c)) = results c
      \<and> currentResult (fst (undo_resume env f c)) = currentResult c
      \<and> snd (undo_resume env f c) = [])"
proof (intro conjI impI)
  assume "ok r \<and> json r = Inr (Some d)"
  then show "undo_resume env (Resolved r) c
        = (c\<lparr>results := butlast (results c),
              currentResult := undo_next (u_result_id d) (butlast (results c)),
              jobStatus := Done, jobMessage := None\<rparr>, [])"
    by (auto simp: undo_resume_def redirectIfUnauthorized_def ok_def Let_def setJobStatus_def
        setCurrentResult_def removeLatestResult_def slice_but_last_butlast undo_next_def
        last_or_null_def split: option.splits)
next
  assume "status r = 401"
  then show "undo_resume env (Resolved r) c
        = (c\<lparr>jobStatus := Idle, jobMessage := None\<rparr>, [RedirectToLogin])"
    by (simp add: undo_resume_def redirectIfUnauthorized_def setJobStatus_def)
next
  assume fails: "f = Rejected e \<or> f = Resolved r \<and> status r \<noteq> 401 \<and> (\<not> ok r \<or> json r = Inl e)"
  then show "jobStatus (fst (undo_resume env f c)) = Error"
    by (auto simp: undo_resume_def redirectIfUnauthorized_def setJobStatus_def)
  from fails show "results (fst (undo_resume env f c)) = results c"
    by (auto simp: undo_resume_def redirectIfUnauthorized_def setJobStatus_def)
  from fails show "currentResult (fst (undo_resume env f c)) = currentResult c"
    by (auto simp: undo_resume_def redirectIfUnauthorized_def setJobStatus_def)
  from fails show "snd (undo_resume env f c) = []"
    by (auto simp: undo_resume_def redirectIfUnauthorized_def setJobStatus_def)
qed

theorem undo_outcomes_witness:
  "ok \<lparr>status = 200, error_message = None, json = Inr (Some \<lparr>u_result_id = Some ''r2''\<rparr>)\<rparr>
   \<and> results (fst (undo_resume env0 (http 200 (Some \<lparr>u_result_id = Some ''r2''\<rparr>)) three_results))
       = [item ''r1'' None, item ''r2'' None]
   \<and> currentResult (fst (undo_resume env0 (http 200 (Some \<lparr>u_result_id = Some ''r2''\<rparr>)) three_results))
       = Some (item ''r2'' None)
   \<and> jobStatus (fst (undo_resume env0 (http 200 (Some \<lparr>u_result_id = Some ''r2''\<rparr>)) three_results)) = Done
   \<and> jobStatus (fst (undo_resume env0 (http 401 None) three_results)) = Idle
   \<and> snd (undo_resume env0 (http 401 None) three_results) = [RedirectToLogin]
   \<and> jobStatus (fst (undo_resume env0 (Rejected ''Failed to fetch'') three_results)) = Error
   \<and> results (fst (undo_resume env0 (Rejected ''Failed to fetch'') three_results)) = results three_results"
proof -
  let ?r = "\<lparr>status = 200, error_message = None, json = Inr (Some \<lparr>u_result_id = Some ''r2''\<rparr>)\<rparr>"
  let ?u = "\<lparr>status = 401, error_message = None, json = Inr (None :: UndoData option)\<rparr>"
  have okr: "ok ?r \<and> json ?r = Inr (Some \<lparr>u_result_id = Some ''r2''\<rparr>)"
    by (simp add: ok_def)
  have un: "status ?u = 401" by simp
  note success = undo_outcomes [of ?r "\<lparr>u_result_id = Some ''r2''\<rparr>" env0 three_results,
      THEN conjunct1, rule_format, OF okr]
  note unauth = undo_outcomes [of ?u _ env0 three_results,
      THEN conjunct2, THEN conjunct1, rule_format, OF un]
  note failed = undo_outcomes [of _ _ env0 three_results "Rejected ''Failed to fetch''" "''Failed to fetch''",
      THEN conjunct2, THEN conjunct2, rule_format, OF disjI1, OF refl]
  have hist: "butlast (results three_results) = [item ''r1'' None, item ''r2'' None]"
    by (simp add: three_results_def)
  have nxt: "undo_next (Some ''r2'') [item ''r1'' None, item ''r2'' None] = Some (item ''r2'' None)"
    by (simp add: undo_next_def item_def)
  show ?thesis
    using success unauth failed okr
    by (simp add: http_def hist nxt)
qed

section \<open>Unauthorized answers and stale events\<close>

text \<open>
  Claim C6: every remote call answered 401 resets the status to \<open>idle\<close>, clears the active
  job id, discards the pending generation, resets the cancellation flag and invokes the
  login redirect. The create-job, cancel and poll paths do so; the 401 branches of \<open>undo\<close>
  and \<open>applyResultToCanvas\<close> only set the status. After a failed cancel the store holds
  status \<open>error\<close> with job-1 still active; an undo answered 401 in that state leaves
  job-1 as the active job, where the create-job path clears it.
\<close>

theorem undo_unauthorized_keeps_active_job:
  "jobStatus (after cancel_failed) = Error
   \<and> activeJobId (after cancel_failed) = Some ''job-1''
   \<and> undo_resume env0 (http 401 None) (after cancel_failed)
       = ((after cancel_failed)\<lparr>jobStatus := Idle, jobMessage := None\<rparr>, [RedirectToLogin])
   \<and> activeJobId (fst (undo_resume env0 (http 401 None) (after cancel_failed))) = Some ''job-1''
   \<and> activeJobId (fst (applyResultToCanvas_resume env0 (http 401 None) (after cancel_failed)))
       = Some ''job-1''
   \<and> activeJobId (fst (executeGeneration_resume env0 (http 401 None) (after cancel_failed))) = None"
  by code_simp

text \<open>What the three other paths do on 401, for comparison.\<close>

lemma unauthorized_reset_paths:
  assumes "status r1 = 401" and "status r2 = 401" and "status r3 = 401"
  shows "executeGeneration_resume env (Resolved r1) c = (unauthorizedReset c, [RedirectToLogin])"
    and "requestCancellation_resume (Resolved r2) c = (unauthorizedReset c, [RedirectToLogin])"
    and "poll_resume env j (Resolved r3) c = (unauthorizedReset c, [RedirectToLogin])"
  using assms
  by (simp_all add: executeGeneration_resume_def requestCancellation_resume_def poll_resume_def
      redirectIfUnauthorized_def)

text \<open>What \<open>undo\<close> and \<open>applyResultToCanvas\<close> do on 401: the status alone is reset.\<close>

lemma unauthorized_action_paths:
  assumes "status r1 = 401" and "status r2 = 401"
  shows "undo_resume env (Resolved r1) c = (setJobStatus Idle None c, [RedirectToLogin])"
    and "applyResultToCanvas_resume env (Resolved r2) c = (setJobStatus Idle None c, [RedirectToLogin])"
  using assms
  by (simp_all add: undo_resume_def applyResultToCanvas_resume_def redirectIfUnauthorized_def)

text \<open>
  Claim C3: a terminal event for a job that is no longer the active one, or that arrives
  when no job is active, changes nothing. The polling path compares the job id of the
  answer with the id it polls for; the push-channel handler has no such test. After job-1
  was cancelled and the pending generation was sent again, the status is \<open>queued\<close> and no
  job id is stored yet; a second \<open>cancelled\<close> message then sets the status to
  \<open>cancelled\<close>.
\<close>

theorem duplicate_cancelled_changes_state:
  "activeJobId (after replayed) = None
   \<and> jobStatus (after replayed) = Queued
   \<and> create_calls (calls replayed) = [form0 sketch1, form0 sketch2]
   \<and> jobStatus (ws_onmessage env0 WsCancelled (after replayed)) = Cancelled
   \<and> ws_onmessage env0 WsCancelled (after replayed) \<noteq> after replayed"
  by code_simp

text \<open>The test of the polling path: an answer for another job id is dropped.\<close>

lemma poll_other_job_dropped:
  assumes "status r \<noteq> 401" and "json r = Inr (Some d)" and "p_job_id d \<noteq> Some j"
  shows "poll_resume env j (Resolved r) c = (c, [])"
  using assms by (simp add: poll_resume_def redirectIfUnauthorized_def)

text \<open>
  What does hold on the push channel: a terminal message handled twice in a row leaves the
  state the first handling produced.
\<close>

lemma ws_terminal_idempotent:
  assumes "terminal m"
  shows "ws_onmessage env m (ws_onmessage env m c) = ws_onmessage env m c"
proof (cases m)
  case (WsResultMsg w)
  have "pushResult (wsResultItem env w) (jobEnded Done None (pushResult (wsResultItem env w) c))
      = jobEnded Done None (pushResult (wsResultItem env w) (pushResult (wsResultItem env w) c))"
    by (simp add: jobEnded_def pushResult_def setJobStatus_def setActiveJobId_def Let_def)
  with WsResultMsg show ?thesis
    by (simp add: ws_onmessage_def pushResult_idempotent)
       (simp add: jobEnded_def setJobStatus_def setActiveJobId_def)
next
  case (WsError e)
  then show ?thesis
    by (simp add: ws_onmessage_def jobEnded_def setJobStatus_def setActiveJobId_def)
next
  case WsCancelled
  then show ?thesis
    by (simp add: ws_onmessage_def jobEnded_def setJobStatus_def setActiveJobId_def)
qed (use assms in \<open>simp_all add: terminal_def\<close>)

section \<open>The active job and the status\<close>

text \<open>
  Claim C1, as stated, fails: \<open>executeGeneration\<close> sets the status to \<open>queued\<close> before it
  sends the create-job call and stores the job id only when the call has settled. While
  the call is in flight the status is \<open>queued\<close> and the active job id is \<open>null\<close>. And the
  job id of the answer is stored without a look at the status: when a \<open>cancelled\<close> message
  has arrived while the call was in flight, the status is \<open>cancelled\<close> and job-2 is the
  active job.
\<close>

theorem active_job_invariant_counterexample:
  "activeJob_iff_busy initial
   \<and> jobStatus (after in_flight) = Queued
   \<and> activeJobId (after in_flight) = None
   \<and> \<not> activeJob_iff_busy (after in_flight)
   \<and> jobStatus (after late_answer) = Cancelled
   \<and> activeJobId (after late_answer) = Some ''job-2''
   \<and> \<not> activeJob_iff_busy (after late_answer)"
  by code_simp

text \<open>
  Claim C1, amended. After every terminal-event handler, of the push channel and of the
  polling path, the active job id is \<open>null\<close> and the status is not busy, so the active
  job id is non-null if and only if the status is \<open>queued\<close> or \<open>running\<close>. The first
  step of a submission that reaches the remote call sets the status to \<open>queued\<close> and
  leaves the active job id as it was. When the
  create-job call has settled and was rejected, answered 401 or another status that is not
  2xx, skipped, or answered with an unreadable or \<open>null\<close> body, the active job id is
  \<open>null\<close> and the equivalence holds. Otherwise the job id of the answer is stored, the
  status becomes \<open>queued\<close> if the answer reports a degraded quality and else stays what it
  is when the answer arrives, and the equivalence holds exactly when the answer carries a
  job id and that status is busy, or carries none and that status is not busy.
\<close>

theorem active_job_settled:
  "(terminal m \<longrightarrow>
      activeJobId (ws_onmessage env m c) = None \<and> activeJob_iff_busy (ws_onmessage env m c))
   \<and> (poll_terminal j f \<longrightarrow>
      activeJobId (fst (poll_resume env j f c)) = None
      \<and> activeJob_iff_busy (fst (poll_resume env j f c)))
   \<and> (snd (executeGeneration_begin env p c) \<noteq> [] \<longrightarrow>
      jobStatus (fst (executeGeneration_begin env p c)) = Queued
      \<and> activeJobId (fst (executeGeneration_begin env p c)) = activeJobId c)
   \<and> (case job_created g of
        None \<Rightarrow>
          activeJobId (fst (executeGeneration_resume env g c)) = None
          \<and> activeJob_iff_busy (fst (executeGeneration_resume env g c))
      | Some d \<Rightarrow>
          activeJobId (fst (executeGeneration_resume env g c)) = g_job_id d
          \<and> jobStatus (fst (executeGeneration_resume env g c))
              = (if g_quality_degraded d then Queued else jobStatus c)
          \<and> (activeJob_iff_busy (fst (executeGeneration_resume env g c))
              \<longleftrightarrow> (g_job_id d \<noteq> None
                   \<longleftrightarrow> g_quality_degraded d \<or> isGenerating (jobStatus c))))"
proof (intro conjI impI)
  assume "terminal m"
  then show "activeJobId (ws_onmessage env m c) = None"
    by (cases m) (simp_all add: terminal_def ws_onmessage_def jobEnded_def setActiveJobId_def)
  from \<open>terminal m\<close> show "activeJob_iff_busy (ws_onmessage env m c)"
    by (cases m) (simp_all add: terminal_def ws_onmessage_def jobEnded_def setActiveJobId_def
        setJobStatus_def activeJob_iff_busy_def isGenerating_def)
next
  assume pt: "poll_terminal j f"
  then show "activeJobId (fst (poll_resume env j f c)) = None"
    by (auto simp: poll_terminal_def poll_resume_def redirectIfUnauthorized_def jobEnded_def
        setActiveJobId_def split: Fetched.splits sum.splits option.splits)
  from pt show "activeJob_iff_busy (fst (poll_resume env j f c))"
    by (auto simp: poll_terminal_def poll_resume_def redirectIfUnauthorized_def jobEnded_def
        setActiveJobId_def setJobStatus_def activeJob_iff_busy_def isGenerating_def
        split: Fetched.splits sum.splits option.splits)
next
  assume sent: "snd (executeGeneration_begin env p c) \<noteq> []"
  then show "jobStatus (fst (executeGeneration_begin env p c)) = Queued"
    by (auto simp: executeGeneration_begin_unfold Let_def setJobStatus_def setLastSketch_def
        split: option.splits sum.splits)
  from sent show "activeJobId (fst (executeGeneration_begin env p c)) = activeJobId c"
    by (auto simp: executeGeneration_begin_unfold Let_def setJobStatus_def setLastSketch_def
        split: option.splits sum.splits)
next
  show "case job_created g of
        None \<Rightarrow>
          activeJobId (fst (executeGeneration_resume env g c)) = None
          \<and> activeJob_iff_busy (fst (executeGeneration_resume env g c))
      | Some d \<Rightarrow>
          activeJobId (fst (executeGeneration_resume env g c)) = g_job_id d
          \<and> jobStatus (fst (executeGeneration_resume env g c))
              = (if g_quality_degraded d then Queued else jobStatus c)
          \<and> (activeJob_iff_busy (fst (executeGeneration_resume env g c))
              \<longleftrightarrow> (g_job_id d \<noteq> None
                   \<longleftrightarrow> g_quality_degraded d \<or> isGenerating (jobStatus c)))"
    by (simp add: job_created_def executeGeneration_resume_def redirectIfUnauthorized_def
        generationFailed_def unauthorizedReset_def setActiveJobId_def setJobStatus_def
        activeJob_iff_busy_def isGenerating_def Let_def
        split: Fetched.split sum.split option.split)
qed

theorem active_job_settled_witness:
  "terminal WsCancelled
   \<and> poll_terminal ''job-1'' (http 200 (Some (poll_answer ''job-1'' ''done'')))
   \<and> snd (executeGeneration_begin env0 payload1 (after job1_active)) \<noteq> []
   \<and> job_created (http 200 (Some (created ''job-1''))) = Some (created ''job-1'')
   \<and> isGenerating (jobStatus (after in_flight))
   \<and> activeJob_iff_busy (ws_onmessage env0 WsCancelled (after job1_active))
   \<and> activeJob_iff_busy (fst (poll_resume env0 ''job-1''
        (http 200 (Some (poll_answer ''job-1'' ''done''))) (after job1_active)))
   \<and> jobStatus (fst (executeGeneration_begin env0 payload1 (after job1_active))) = Queued
   \<and> activeJobId (fst (executeGeneration_resume env0
        (http 200 (Some (created ''job-1''))) (after in_flight))) = Some ''job-1''
   \<and> activeJob_iff_busy (fst (executeGeneration_resume env0
        (http 200 (Some (created ''job-1''))) (after in_flight)))"
proof -
  have h1: "terminal WsCancelled"
    by (simp add: terminal_def)
  have h2: "poll_terminal ''job-1'' (http 200 (Some (poll_answer ''job-1'' ''done'')))"
    by (simp add: poll_terminal_def http_def ok_def poll_answer_def)
  have h3: "snd (executeGeneration_begin env0 payload1 (after job1_active)) \<noteq> []"
    by code_simp
  have h4: "job_created (http 200 (Some (created ''job-1''))) = Some (created ''job-1'')"
    by (simp add: job_created_def http_def ok_def created_def)
  have h5: "isGenerating (jobStatus (after in_flight))"
    by code_simp
  have h6: "g_job_id (created ''job-1'') = Some ''job-1''" "\<not> g_quality_degraded (created ''job-1'')"
    by (simp_all add: created_def)
  note a = active_job_settled [of WsCancelled env0 "after job1_active" "''job-1''"
      "http 200 (Some (poll_answer ''job-1'' ''done''))" payload1]
  note b = active_job_settled [of _ env0 "after in_flight" _ _ _ "http 200 (Some (created ''job-1''))"]
  from b h4 h5 h6 have b4: "activeJobId (fst (executeGeneration_resume env0
        (http 200 (Some (created ''job-1''))) (after in_flight))) = Some ''job-1''
      \<and> activeJob_iff_busy (fst (executeGeneration_resume env0
        (http 200 (Some (created ''job-1''))) (after in_flight)))"
    by simp
  from a h1 h2 h3 h4 h5 b4 show ?thesis by blast
qed
section \<open>Polling\<close>

text \<open>Which calls each handler and each effect can issue.\<close>

lemma executeGeneration_captured_calls:
  "set (snd (executeGeneration_captured env rn p c)) \<subseteq> range PostGenerate"
  by (simp add: executeGeneration_captured_def Let_def split: option.split sum.split)

lemma executeGeneration_begin_calls:
  "set (snd (executeGeneration_begin env p c)) \<subseteq> range PostGenerate"
  by (simp add: executeGeneration_begin_def executeGeneration_captured_calls)

lemma requestCancellation_begin_calls:
  "set (snd (requestCancellation_begin a c)) \<subseteq> range PostCancel"
  by (simp add: requestCancellation_begin_def)

lemma submitGeneration_captured_calls:
  "set (snd (submitGeneration_captured env rn sk cv q sd c))
   \<subseteq> range PostGenerate \<union> range PostCancel"
  using executeGeneration_captured_calls requestCancellation_begin_calls
  by (simp add: submitGeneration_captured_def Let_def le_supI1 le_supI2)

lemma submitGeneration_calls:
  "set (snd (submitGeneration env sk cv q sd c)) \<subseteq> range PostGenerate \<union> range PostCancel"
  by (simp add: submitGeneration_def submitGeneration_captured_calls)

lemma executeGeneration_resume_calls:
  "set (snd (executeGeneration_resume env f c)) \<subseteq> {RedirectToLogin}"
  by (simp add: executeGeneration_resume_def redirectIfUnauthorized_def Let_def
      split: Fetched.split sum.split option.split)

lemma requestCancellation_resume_calls:
  "set (snd (requestCancellation_resume f c)) \<subseteq> {RedirectToLogin}"
  by (simp add: requestCancellation_resume_def redirectIfUnauthorized_def split: Fetched.split)

lemma undo_resume_calls:
  "set (snd (undo_resume env f c)) \<subseteq> {RedirectToLogin}"
  by (simp add: undo_resume_def redirectIfUnauthorized_def Let_def
      split: Fetched.split sum.split option.split)

lemma applyResultToCanvas_resume_calls:
  "set (snd (applyResultToCanvas_resume env f c)) \<subseteq> {RedirectToLogin}"
  by (simp add: applyResultToCanvas_resume_def redirectIfUnauthorized_def
      split: Fetched.split sum.split option.split)

lemma poll_resume_calls:
  "set (snd (poll_resume env j f c)) \<subseteq> {RedirectToLogin}"
  by (simp add: poll_resume_def redirectIfUnauthorized_def
      split: Fetched.split sum.split option.split)

lemma regenerate_calls:
  "set (snd (regenerate env c)) \<subseteq> range PostGenerate \<union> range PostCancel"
  using submitGeneration_calls by (simp add: regenerate_def)

lemma improve_calls:
  "set (snd (improve env c)) \<subseteq> range PostGenerate \<union> range PostCancel"
  using submitGeneration_calls by (simp add: improve_def)

lemma handler_status_query:
  assumes "GetStatus j \<in> set (snd (handle env ev c))"
  shows "ev = PollTick \<and> pollTimer c = Some j \<and> \<not> wsOpen c"
proof (cases ev)
  case (Submit sk cv q sd)
  with assms submitGeneration_calls [of env sk cv q sd c] show ?thesis
    by (auto simp: handle_def)
next
  case (SubmitCaptured rn sk cv q sd)
  with assms submitGeneration_captured_calls [of env rn sk cv q sd c] show ?thesis
    by (auto simp: handle_def)
next
  case Regenerate
  with assms regenerate_calls [of env c] show ?thesis
    by (auto simp: handle_def)
next
  case Improve
  with assms improve_calls [of env c] show ?thesis
    by (auto simp: handle_def)
next
  case Undo
  with assms show ?thesis by (simp add: handle_def undo_begin_def)
next
  case ApplyResultToCanvas
  with assms show ?thesis
    by (simp add: handle_def applyResultToCanvas_begin_def split: option.splits)
next
  case PollTick
  with assms show ?thesis
    by (auto simp: handle_def pollTick_def poll_begin_def split: option.splits if_splits)
next
  case (GenerateSettled f)
  with assms executeGeneration_resume_calls [of env f c] show ?thesis
    by (auto simp: handle_def)
next
  case (CancelSettled f)
  with assms requestCancellation_resume_calls [of f c] show ?thesis
    by (auto simp: handle_def)
next
  case (UndoSettled f)
  with assms undo_resume_calls [of env f c] show ?thesis
    by (auto simp: handle_def)
next
  case (ApplySettled f)
  with assms applyResultToCanvas_resume_calls [of env f c] show ?thesis
    by (auto simp: handle_def)
next
  case (PollSettled k f)
  with assms poll_resume_calls [of env k f c] show ?thesis
    by (auto simp: handle_def)
next
  case WsOpened
  with assms show ?thesis by (simp add: handle_def ws_onopen_def split: if_splits)
next
  case WsClosed
  with assms show ?thesis by (simp add: handle_def)
next
  case (WsReceived m)
  with assms show ?thesis by (simp add: handle_def)
next
  case (BaseImageSet b)
  with assms show ?thesis by (simp add: handle_def)
next
  case HistoryReset
  with assms show ?thesis by (simp add: handle_def)
qed


lemmas store_defs = setJobStatus_def setActiveJobId_def setLastSketch_def setCurrentResult_def
  setBaseImage_def requestClearSketch_def pushResult_def removeLatestResult_def resetHistory_def

lemmas outcome_defs = generationFailed_def unauthorizedReset_def cancelFailed_def jobEnded_def
  redirectIfUnauthorized_def

lemma executeGeneration_captured_frame [simp]:
  "wsOpen (fst (executeGeneration_captured env rn p c)) = wsOpen c"
  "pollTimer (fst (executeGeneration_captured env rn p c)) = pollTimer c"
  "renderedDeps (fst (executeGeneration_captured env rn p c)) = renderedDeps c"
  "lastJobStatusRef (fst (executeGeneration_captured env rn p c)) = lastJobStatusRef c"
  "cancellationRequestedRef (fst (executeGeneration_captured env rn p c)) = cancellationRequestedRef c"
  by (simp_all add: executeGeneration_captured_def Let_def store_defs outcome_defs
      split: option.split sum.split)

lemma executeGeneration_begin_frame [simp]:
  "wsOpen (fst (executeGeneration_begin env p c)) = wsOpen c"
  "pollTimer (fst (executeGeneration_begin env p c)) = pollTimer c"
  "renderedDeps (fst (executeGeneration_begin env p c)) = renderedDeps c"
  "lastJobStatusRef (fst (executeGeneration_begin env p c)) = lastJobStatusRef c"
  "cancellationRequestedRef (fst (executeGeneration_begin env p c)) = cancellationRequestedRef c"
  by (simp_all add: executeGeneration_begin_def)

lemma requestCancellation_begin_frame [simp]:
  "wsOpen (fst (requestCancellation_begin a c)) = wsOpen c"
  "pollTimer (fst (requestCancellation_begin a c)) = pollTimer c"
  "renderedDeps (fst (requestCancellation_begin a c)) = renderedDeps c"
  "lastJobStatusRef (fst (requestCancellation_begin a c)) = lastJobStatusRef c"
  "activeJobId (fst (requestCancellation_begin a c)) = activeJobId c"
  "jobStatus (fst (requestCancellation_begin a c)) = jobStatus c"
  by (simp_all add: requestCancellation_begin_def)

lemma subscribeEffect_frame [simp]:
  "wsOpen (fst (subscribeEffect a c)) = wsOpen c"
  "pollTimer (fst (subscribeEffect a c)) = pollTimer c"
  "renderedDeps (fst (subscribeEffect a c)) = renderedDeps c"
  "lastJobStatusRef (fst (subscribeEffect a c)) = lastJobStatusRef c"
  "activeJobId (fst (subscribeEffect a c)) = activeJobId c"
  "jobStatus (fst (subscribeEffect a c)) = jobStatus c"
  by (simp_all add: subscribeEffect_def)

lemma subscribeEffect_calls: "GetStatus j \<notin> set (snd (subscribeEffect a c))"
  by (simp add: subscribeEffect_def)

lemma replayEffect_frame [simp]:
  "wsOpen (fst (replayEffect env st c)) = wsOpen c"
  "pollTimer (fst (replayEffect env st c)) = pollTimer c"
  "renderedDeps (fst (replayEffect env st c)) = renderedDeps c"
  "lastJobStatusRef (fst (replayEffect env st c)) = st"
  by (simp_all add: replayEffect_def Let_def split: option.split)

lemma replayEffect_calls: "GetStatus j \<notin> set (snd (replayEffect env st c))"
  using executeGeneration_begin_calls
  by (auto simp: replayEffect_def Let_def split: option.split)

lemma replayEffect_idle:
  assumes "\<not> ((lastJobStatusRef c = Queued \<or> lastJobStatusRef c = Running)
              \<and> \<not> (st = Queued \<or> st = Running))"
  shows "activeJobId (fst (replayEffect env st c)) = activeJobId c"
    and "jobStatus (fst (replayEffect env st c)) = jobStatus c"
  using assms by (auto simp: replayEffect_def Let_def)

lemma cancelEffect_frame [simp]:
  "wsOpen (fst (cancelEffect a st c)) = wsOpen c"
  "pollTimer (fst (cancelEffect a st c)) = pollTimer c"
  "renderedDeps (fst (cancelEffect a st c)) = renderedDeps c"
  "lastJobStatusRef (fst (cancelEffect a st c)) = lastJobStatusRef c"
  "activeJobId (fst (cancelEffect a st c)) = activeJobId c"
  "jobStatus (fst (cancelEffect a st c)) = jobStatus c"
  by (simp_all add: cancelEffect_def)

lemma cancelEffect_calls: "GetStatus j \<notin> set (snd (cancelEffect a st c))"
  using requestCancellation_begin_calls [of a c] by (auto simp: cancelEffect_def)

lemma pollEffect_frame [simp]:
  "wsOpen (fst (pollEffect a st c)) = wsOpen c"
  "pollTimer (fst (pollEffect a st c)) = poll_guard a st"
  "renderedDeps (fst (pollEffect a st c)) = renderedDeps c"
  "lastJobStatusRef (fst (pollEffect a st c)) = lastJobStatusRef c"
  "activeJobId (fst (pollEffect a st c)) = activeJobId c"
  "jobStatus (fst (pollEffect a st c)) = jobStatus c"
  by (auto simp: pollEffect_def poll_guard_def)

lemma pollEffect_calls:
  assumes "GetStatus j \<in> set (snd (pollEffect a st c))"
  shows "a = Some j \<and> j \<noteq> [] \<and> (st = Queued \<or> st = Running) \<and> \<not> wsOpen c"
  using assms
  by (auto simp: pollEffect_def poll_begin_def truthy_def nullish_def split: if_splits option.splits)

lemma render_pass_status_query:
  assumes "GetStatus j \<in> set (snd (render_pass env c))"
  shows "activeJobId c = Some j \<and> j \<noteq> [] \<and> (jobStatus c = Queued \<or> jobStatus c = Running)
         \<and> \<not> wsOpen c"
proof -
  let ?a = "activeJobId c" and ?st = "jobStatus c"
  let ?r2 = "if ?a \<noteq> fst (renderedDeps c) then subscribeEffect ?a c else (c, [])"
  let ?r3 = "replayEffect env ?st (fst ?r2)"
  let ?r4 = "if (?a, ?st) \<noteq> renderedDeps c then cancelEffect ?a ?st (fst ?r3) else (fst ?r3, [])"
  from assms have "GetStatus j \<in> set (snd ?r2) \<or> GetStatus j \<in> set (snd ?r3)
      \<or> GetStatus j \<in> set (snd ?r4) \<or> GetStatus j \<in> set (snd (pollEffect ?a ?st (fst ?r4)))"
    by (auto simp: render_pass_def Let_def split: if_splits)
  then have q: "GetStatus j \<in> set (snd (pollEffect ?a ?st (fst ?r4)))"
    using subscribeEffect_calls replayEffect_calls cancelEffect_calls
    by (auto split: if_splits)
  have "wsOpen (fst ?r4) = wsOpen c" by simp
  with pollEffect_calls [OF q] show ?thesis by simp
qed

lemma render_pass_frame [simp]:
  "renderedDeps (fst (render_pass env c)) = (activeJobId c, jobStatus c)"
  "lastJobStatusRef (fst (render_pass env c)) = jobStatus c"
  "wsOpen (fst (render_pass env c)) = wsOpen c"
  by (simp_all add: render_pass_def Let_def)

lemma render_pass_timer:
  assumes "timer_synced c"
  shows "timer_synced (fst (render_pass env c))"
proof (cases "renderedDeps c")
  case (Pair a st)
  with assms show ?thesis
    by (auto simp: timer_synced_def render_pass_def Let_def)
qed

lemma render_pass_idle:
  assumes "\<not> ((lastJobStatusRef c = Queued \<or> lastJobStatusRef c = Running)
              \<and> \<not> (jobStatus c = Queued \<or> jobStatus c = Running))"
  shows "activeJobId (fst (render_pass env c)) = activeJobId c"
    and "jobStatus (fst (render_pass env c)) = jobStatus c"
  using assms by (simp_all add: render_pass_def Let_def replayEffect_idle)

lemma run_effects_settles:
  assumes "timer_synced c"
  shows "timer_synced (fst (run_effects env c))"
    and "renderedDeps (fst (run_effects env c))
          = (activeJobId (fst (run_effects env c)), jobStatus (fst (run_effects env c)))"
proof -
  let ?c1 = "fst (render_pass env c)"
  show "timer_synced (fst (run_effects env c))"
    using assms by (simp add: run_effects_def Let_def render_pass_timer)
  have last: "lastJobStatusRef ?c1 = jobStatus c" by simp
  have "jobStatus c = Queued \<or> jobStatus c = Running \<Longrightarrow> jobStatus ?c1 = jobStatus c"
    by (simp add: render_pass_def Let_def replayEffect_idle)
  with last have "\<not> ((lastJobStatusRef ?c1 = Queued \<or> lastJobStatusRef ?c1 = Running)
              \<and> \<not> (jobStatus ?c1 = Queued \<or> jobStatus ?c1 = Running))"
    by auto
  from render_pass_idle [OF this, of env]
  show "renderedDeps (fst (run_effects env c))
          = (activeJobId (fst (run_effects env c)), jobStatus (fst (run_effects env c)))"
    by (simp add: run_effects_def Let_def)
qed


lemma submitGeneration_captured_frame [simp]:
  "pollTimer (fst (submitGeneration_captured env rn sk cv q sd c)) = pollTimer c"
  "renderedDeps (fst (submitGeneration_captured env rn sk cv q sd c)) = renderedDeps c"
  "lastJobStatusRef (fst (submitGeneration_captured env rn sk cv q sd c)) = lastJobStatusRef c"
  by (simp_all add: submitGeneration_captured_def Let_def store_defs)

lemma submitGeneration_frame [simp]:
  "pollTimer (fst (submitGeneration env sk cv q sd c)) = pollTimer c"
  "renderedDeps (fst (submitGeneration env sk cv q sd c)) = renderedDeps c"
  "lastJobStatusRef (fst (submitGeneration env sk cv q sd c)) = lastJobStatusRef c"
  by (simp_all add: submitGeneration_def)

lemma resume_frame [simp]:
  "pollTimer (fst (executeGeneration_resume env g c)) = pollTimer c"
  "renderedDeps (fst (executeGeneration_resume env g c)) = renderedDeps c"
  "pollTimer (fst (requestCancellation_resume f c)) = pollTimer c"
  "renderedDeps (fst (requestCancellation_resume f c)) = renderedDeps c"
  "pollTimer (fst (undo_resume env u c)) = pollTimer c"
  "renderedDeps (fst (undo_resume env u c)) = renderedDeps c"
  "pollTimer (fst (applyResultToCanvas_resume env ap c)) = pollTimer c"
  "renderedDeps (fst (applyResultToCanvas_resume env ap c)) = renderedDeps c"
  "pollTimer (fst (poll_resume env j pf c)) = pollTimer c"
  "renderedDeps (fst (poll_resume env j pf c)) = renderedDeps c"
  by (simp_all add: executeGeneration_resume_def requestCancellation_resume_def undo_resume_def
      applyResultToCanvas_resume_def poll_resume_def Let_def store_defs outcome_defs
      split: Fetched.split sum.split option.split)

lemma ws_onmessage_frame [simp]:
  "pollTimer (ws_onmessage env m c) = pollTimer c"
  "renderedDeps (ws_onmessage env m c) = renderedDeps c"
  by (simp_all add: ws_onmessage_def store_defs outcome_defs Let_def split: WsMessage.split)

lemma handle_frame [simp]:
  "pollTimer (fst (handle env ev c)) = pollTimer c"
  "renderedDeps (fst (handle env ev c)) = renderedDeps c"
  by (simp_all add: handle_def regenerate_def improve_def undo_begin_def
      applyResultToCanvas_begin_def ws_onopen_def store_defs split: Event.split option.split)

lemma step_settles:
  assumes "timer_synced c"
  shows "timer_synced (fst (step env ev c))"
    and "renderedDeps (fst (step env ev c))
          = (activeJobId (fst (step env ev c)), jobStatus (fst (step env ev c)))"
proof -
  from assms have "timer_synced (fst (handle env ev c))"
    by (simp add: timer_synced_def)
  from run_effects_settles [OF this, of env]
  show "timer_synced (fst (step env ev c))"
    and "renderedDeps (fst (step env ev c))
          = (activeJobId (fst (step env ev c)), jobStatus (fst (step env ev c)))"
    by (simp_all add: step_def Let_def)
qed

lemma run_settles:
  assumes "timer_synced c" and "renderedDeps c = (activeJobId c, jobStatus c)"
  shows "timer_synced (fst (run env evs c))
         \<and> renderedDeps (fst (run env evs c))
             = (activeJobId (fst (run env evs c)), jobStatus (fst (run env evs c)))"
  using assms
proof (induction evs arbitrary: c)
  case Nil
  then show ?case by simp
next
  case (Cons ev evs)
  from step_settles [OF Cons.prems(1), of env ev] Cons.IH [of "fst (step env ev c)"]
  show ?case by (simp add: Let_def)
qed

text \<open>
  Claim C7. In every state the hook reaches, a handler issues a status query only on a
  tick of the polling interval, and then an active job id is set (the id queried), the
  status is \<open>queued\<close> or \<open>running\<close>, and the push channel is not open. The only other
  source of a status query is the polling effect of a render, under the same three
  conditions. With the push channel open a tick issues nothing. The interval is registered
  exactly when an active job id is set and the status is busy: polling has ceased as soon
  as the status has left the busy set or the job id is cleared.
\<close>

theorem polling_guards:
  "(GetStatus j \<in> set (snd (handle env ev (fst (run env evs initial)))) \<longrightarrow>
      ev = PollTick \<and> activeJobId (fst (run env evs initial)) = Some j
      \<and> (jobStatus (fst (run env evs initial)) = Queued
          \<or> jobStatus (fst (run env evs initial)) = Running)
      \<and> \<not> wsOpen (fst (run env evs initial)))
   \<and> (GetStatus j \<in> set (snd (render_pass env c)) \<longrightarrow>
      activeJobId c = Some j \<and> (jobStatus c = Queued \<or> jobStatus c = Running) \<and> \<not> wsOpen c)
   \<and> (wsOpen c \<longrightarrow> pollTick c = [])
   \<and> pollTimer (fst (run env evs initial))
       = (if truthy (activeJobId (fst (run env evs initial)))
             \<and> (jobStatus (fst (run env evs initial)) = Queued
                 \<or> jobStatus (fst (run env evs initial)) = Running)
          then activeJobId (fst (run env evs initial)) else None)"
proof -
  let ?c = "fst (run env evs initial)"
  have b: "GetStatus j \<in> set (snd (render_pass env c)) \<Longrightarrow>
      activeJobId c = Some j \<and> (jobStatus c = Queued \<or> jobStatus c = Running) \<and> \<not> wsOpen c"
    using render_pass_status_query [of j env c] by simp
  have c: "wsOpen c \<Longrightarrow> pollTick c = []"
    by (simp add: pollTick_def poll_begin_def split: option.split)
  have "timer_synced initial" and "renderedDeps initial = (activeJobId initial, jobStatus initial)"
    by (simp_all add: timer_synced_def initial_def poll_guard_def truthy_def)
  from run_settles [OF this, of env evs]
  have ts: "timer_synced ?c" and rd: "renderedDeps ?c = (activeJobId ?c, jobStatus ?c)"
    by blast+
  then have guard: "pollTimer ?c = poll_guard (activeJobId ?c) (jobStatus ?c)"
    by (simp add: timer_synced_def)
  then have d: "pollTimer ?c
       = (if truthy (activeJobId ?c) \<and> (jobStatus ?c = Queued \<or> jobStatus ?c = Running)
          then activeJobId ?c else None)"
    by (simp only: poll_guard_def)
  have a: "GetStatus j \<in> set (snd (handle env ev ?c)) \<Longrightarrow>
      ev = PollTick \<and> activeJobId ?c = Some j
      \<and> (jobStatus ?c = Queued \<or> jobStatus ?c = Running) \<and> \<not> wsOpen ?c"
  proof -
    assume "GetStatus j \<in> set (snd (handle env ev ?c))"
    from handler_status_query [OF this]
    have tick: "ev = PollTick" and timer: "pollTimer ?c = Some j" and closed: "\<not> wsOpen ?c"
      by simp_all
    from timer guard have "activeJobId ?c = Some j \<and> (jobStatus ?c = Queued \<or> jobStatus ?c = Running)"
      by (auto simp: poll_guard_def split: if_splits)
    with tick closed show ?thesis by simp
  qed
  from a b c d show ?thesis by blast
qed

theorem polling_guards_witness:
  "GetStatus ''job-1'' \<in> set (snd (handle env0 PollTick (fst (run env0 job1_active initial))))
   \<and> activeJobId (fst (run env0 job1_active initial)) = Some ''job-1''
   \<and> \<not> wsOpen (fst (run env0 job1_active initial))
   \<and> GetStatus ''job-1'' \<in> set (snd (render_pass env0
        (fst (handle env0 (GenerateSettled (http 200 (Some (created ''job-1'')))) (after in_flight)))))
   \<and> wsOpen (fst (step env0 WsOpened (after job1_active)))
   \<and> pollTick (fst (step env0 WsOpened (after job1_active))) = []"
proof -
  have h1: "GetStatus ''job-1'' \<in> set (snd (handle env0 PollTick (fst (run env0 job1_active initial))))"
    by code_simp
  have h2: "GetStatus ''job-1'' \<in> set (snd (render_pass env0
        (fst (handle env0 (GenerateSettled (http 200 (Some (created ''job-1'')))) (after in_flight)))))"
    by code_simp
  have h3: "wsOpen (fst (step env0 WsOpened (after job1_active)))"
    by code_simp
  note a = polling_guards [of "''job-1''" env0 PollTick job1_active]
  note b = polling_guards [of "''job-1''" env0 _ _
      "fst (handle env0 (GenerateSettled (http 200 (Some (created ''job-1'')))) (after in_flight))"]
  note c = polling_guards [of _ env0 _ _ "fst (step env0 WsOpened (after job1_active))"]
  from a b c h1 h2 h3 show ?thesis by blast
qed

section \<open>Submitting while a job is active\<close>

lemma run_append:
  "run env (xs @ ys) c = (fst (run env ys (fst (run env xs c))),
                          snd (run env xs c) @ snd (run env ys (fst (run env xs c))))"
  by (induction xs arbitrary: c) (simp_all add: Let_def)

lemma subscribeEffect_no_job [simp]: "subscribeEffect None c = (c, [])"
  by (simp add: subscribeEffect_def truthy_def)

lemma cancelEffect_no_job [simp]: "cancelEffect None st c = (c, [])"
  by (simp add: cancelEffect_def truthy_def)

lemma pollEffect_no_job [simp]: "pollEffect None st c = (c\<lparr>pollTimer := None\<rparr>, [])"
  by (simp add: pollEffect_def truthy_def)

lemma replayEffect_quiet:
  assumes "\<not> ((lastJobStatusRef c = Queued \<or> lastJobStatusRef c = Running)
              \<and> \<not> (st = Queued \<or> st = Running))"
  shows "snd (replayEffect env st c) = []"
  using assms by (auto simp: replayEffect_def Let_def)

lemma replayEffect_nothing_pending:
  assumes "pendingGenerationRef c = None"
  shows "snd (replayEffect env st c) = []"
    and "pendingGenerationRef (fst (replayEffect env st c)) = None"
  using assms by (auto simp: replayEffect_def Let_def)

lemma ws_terminal_handled:
  assumes "terminal m"
  shows "activeJobId (ws_onmessage env m c) = None"
    and "jobStatus (ws_onmessage env m c) \<noteq> Queued"
    and "jobStatus (ws_onmessage env m c) \<noteq> Running"
    and "pendingGenerationRef (ws_onmessage env m c) = pendingGenerationRef c"
    and "lastJobStatusRef (ws_onmessage env m c) = lastJobStatusRef c"
    and "baseImage (ws_onmessage env m c) = baseImage c"
    and "prompt (ws_onmessage env m c) = prompt c"
  using assms
  by (cases m; simp add: terminal_def ws_onmessage_def store_defs outcome_defs Let_def)+

lemma poll_terminal_handled:
  assumes "poll_terminal j f"
  shows "activeJobId (fst (poll_resume env j f c)) = None"
    and "jobStatus (fst (poll_resume env j f c)) \<noteq> Queued"
    and "jobStatus (fst (poll_resume env j f c)) \<noteq> Running"
    and "pendingGenerationRef (fst (poll_resume env j f c)) = pendingGenerationRef c"
    and "lastJobStatusRef (fst (poll_resume env j f c)) = lastJobStatusRef c"
    and "baseImage (fst (poll_resume env j f c)) = baseImage c"
    and "prompt (fst (poll_resume env j f c)) = prompt c"
    and "snd (poll_resume env j f c) = []"
  using assms
  by (auto simp: poll_terminal_def poll_resume_def store_defs outcome_defs Let_def
      split: Fetched.splits sum.splits option.splits)

lemma terminal_event_handled:
  assumes "terminal_event j ev"
  shows "activeJobId (fst (handle env ev c)) = None"
    and "jobStatus (fst (handle env ev c)) \<noteq> Queued"
    and "jobStatus (fst (handle env ev c)) \<noteq> Running"
    and "pendingGenerationRef (fst (handle env ev c)) = pendingGenerationRef c"
    and "lastJobStatusRef (fst (handle env ev c)) = lastJobStatusRef c"
    and "baseImage (fst (handle env ev c)) = baseImage c"
    and "prompt (fst (handle env ev c)) = prompt c"
    and "snd (handle env ev c) = []"
proof -
  from assms consider (ws) m where "ev = WsReceived m" "terminal m"
    | (poll) f where "ev = PollSettled j f" "poll_terminal j f"
    by (cases ev) (auto simp: terminal_event_def)
  then have "activeJobId (fst (handle env ev c)) = None
    \<and> jobStatus (fst (handle env ev c)) \<noteq> Queued
    \<and> jobStatus (fst (handle env ev c)) \<noteq> Running
    \<and> pendingGenerationRef (fst (handle env ev c)) = pendingGenerationRef c
    \<and> lastJobStatusRef (fst (handle env ev c)) = lastJobStatusRef c
    \<and> baseImage (fst (handle env ev c)) = baseImage c
    \<and> prompt (fst (handle env ev c)) = prompt c
    \<and> snd (handle env ev c) = []"
  proof cases
    case ws
    with ws_terminal_handled [OF ws(2), of env c] show ?thesis by (simp add: handle_def)
  next
    case poll
    with poll_terminal_handled [OF poll(2), of env c] show ?thesis by (simp add: handle_def)
  qed
  then show "activeJobId (fst (handle env ev c)) = None"
    and "jobStatus (fst (handle env ev c)) \<noteq> Queued"
    and "jobStatus (fst (handle env ev c)) \<noteq> Running"
    and "pendingGenerationRef (fst (handle env ev c)) = pendingGenerationRef c"
    and "lastJobStatusRef (fst (handle env ev c)) = lastJobStatusRef c"
    and "baseImage (fst (handle env ev c)) = baseImage c"
    and "prompt (fst (handle env ev c)) = prompt c"
    and "snd (handle env ev c) = []"
    by blast+
qed

lemma effects_create_nothing [simp]:
  "create_calls (snd (subscribeEffect a c)) = []"
  "create_calls (snd (cancelEffect a st c)) = []"
  "create_calls (snd (pollEffect a st c)) = []"
  by (simp_all add: create_calls_def subscribeEffect_def cancelEffect_def pollEffect_def
      requestCancellation_begin_def poll_begin_def)

lemma effects_keep_pending [simp]:
  "pendingGenerationRef (fst (subscribeEffect a c)) = pendingGenerationRef c"
  "pendingGenerationRef (fst (cancelEffect a st c)) = pendingGenerationRef c"
  "pendingGenerationRef (fst (pollEffect a st c)) = pendingGenerationRef c"
  by (simp_all add: subscribeEffect_def cancelEffect_def pollEffect_def
      requestCancellation_begin_def)

lemma effects_cancel_nothing [simp]:
  "cancel_calls (snd (subscribeEffect a c)) = []"
  "cancel_calls (snd (pollEffect a st c)) = []"
  by (simp_all add: cancel_calls_def subscribeEffect_def pollEffect_def poll_begin_def)

lemma cancelEffect_nothing_pending:
  assumes "pendingGenerationRef c = None"
  shows "cancelEffect a st c = (c, [])"
  using assms by (simp add: cancelEffect_def)

lemma render_pass_nothing_pending:
  assumes "pendingGenerationRef c = None"
  shows "create_calls (snd (render_pass env c)) = []"
    and "cancel_calls (snd (render_pass env c)) = []"
    and "pendingGenerationRef (fst (render_pass env c)) = None"
  using assms
  by (simp_all add: render_pass_def Let_def replayEffect_nothing_pending
      cancelEffect_nothing_pending)

lemma run_effects_nothing_pending:
  assumes "pendingGenerationRef c = None"
  shows "create_calls (snd (run_effects env c)) = []"
    and "cancel_calls (snd (run_effects env c)) = []"
    and "pendingGenerationRef (fst (run_effects env c)) = None"
proof -
  note p1 = render_pass_nothing_pending [OF assms, of env]
  note p2 = render_pass_nothing_pending [OF p1(3), of env]
  show "create_calls (snd (run_effects env c)) = []"
    and "cancel_calls (snd (run_effects env c)) = []"
    and "pendingGenerationRef (fst (run_effects env c)) = None"
    using p1 p2 by (simp_all add: run_effects_def Let_def)
qed

lemma cancel_failure_handled:
  assumes "cancel_failure f"
  shows "pendingGenerationRef (fst (requestCancellation_resume f c)) = None"
    and "create_calls (snd (requestCancellation_resume f c)) = []"
    and "cancel_calls (snd (requestCancellation_resume f c)) = []"
  using assms
  by (auto simp: cancel_failure_def requestCancellation_resume_def outcome_defs create_calls_def
      cancel_calls_def split: Fetched.splits)

lemma step_cancel_failure:
  assumes "cancel_failure f"
  shows "create_calls (snd (step env (CancelSettled f) c)) = []"
    and "cancel_calls (snd (step env (CancelSettled f) c)) = []"
    and "pendingGenerationRef (fst (step env (CancelSettled f) c)) = None"
proof -
  note h = cancel_failure_handled [OF assms, of c]
  note e = run_effects_nothing_pending [OF h(1), of env]
  show "create_calls (snd (step env (CancelSettled f) c)) = []"
    and "cancel_calls (snd (step env (CancelSettled f) c)) = []"
    and "pendingGenerationRef (fst (step env (CancelSettled f) c)) = None"
    using h e by (simp_all add: step_def Let_def handle_def)
qed

text \<open>
  The cancellation flag is reset only where the status is not busy: by a handler that
  leaves a status outside the busy set, or by the effects of a render whose status is.
\<close>

lemma submitGeneration_captured_flag:
  assumes "cancellationRequestedRef c"
  shows "cancellationRequestedRef (fst (submitGeneration_captured env rn sk cv q sd c))"
  using assms
  by (simp add: submitGeneration_captured_def Let_def requestCancellation_begin_def store_defs)

lemma submitGeneration_flag:
  assumes "cancellationRequestedRef c"
  shows "cancellationRequestedRef (fst (submitGeneration env sk cv q sd c))"
  using assms by (simp add: submitGeneration_def submitGeneration_captured_flag)

lemma resume_flag:
  assumes "cancellationRequestedRef c"
  shows "cancellationRequestedRef (fst (executeGeneration_resume env g c))
         \<or> jobStatus (fst (executeGeneration_resume env g c)) \<notin> {Queued, Running}"
    and "cancellationRequestedRef (fst (requestCancellation_resume f c))
         \<or> jobStatus (fst (requestCancellation_resume f c)) \<notin> {Queued, Running}"
    and "cancellationRequestedRef (fst (undo_resume env u c))"
    and "cancellationRequestedRef (fst (applyResultToCanvas_resume env ap c))"
    and "cancellationRequestedRef (fst (poll_resume env j pf c))
         \<or> jobStatus (fst (poll_resume env j pf c)) \<notin> {Queued, Running}"
    and "cancellationRequestedRef (ws_onmessage env m c)"
  using assms
  by (simp_all add: executeGeneration_resume_def requestCancellation_resume_def undo_resume_def
      applyResultToCanvas_resume_def poll_resume_def ws_onmessage_def Let_def store_defs
      outcome_defs split: Fetched.split sum.split option.split WsMessage.split)

lemma handler_flag_reset:
  assumes "cancellationRequestedRef c" and "\<not> cancellationRequestedRef (fst (handle env ev c))"
  shows "jobStatus (fst (handle env ev c)) \<notin> {Queued, Running}"
proof (cases ev)
  case (Submit sk cv q sd)
  with assms submitGeneration_flag [of c env sk cv q sd] show ?thesis by (simp add: handle_def)
next
  case (SubmitCaptured rn sk cv q sd)
  with assms submitGeneration_captured_flag [of c env rn sk cv q sd] show ?thesis
    by (simp add: handle_def)
next
  case Regenerate
  with assms submitGeneration_flag [of c env] show ?thesis
    by (simp add: handle_def regenerate_def split: if_splits)
next
  case Improve
  with assms submitGeneration_flag [of c env] show ?thesis
    by (simp add: handle_def improve_def split: if_splits)
next
  case (GenerateSettled g)
  with assms resume_flag(1) [of c env g] show ?thesis by (simp add: handle_def)
next
  case (CancelSettled f)
  with assms resume_flag(2) [of c f] show ?thesis by (simp add: handle_def)
next
  case (UndoSettled u)
  with assms resume_flag(3) [of c env u] show ?thesis by (simp add: handle_def)
next
  case (ApplySettled ap)
  with assms resume_flag(4) [of c env ap] show ?thesis by (simp add: handle_def)
next
  case (PollSettled j pf)
  with assms resume_flag(5) [of c env j pf] show ?thesis by (simp add: handle_def)
next
  case (WsReceived m)
  with assms resume_flag(6) [of c env m] show ?thesis by (simp add: handle_def)
qed (use assms in \<open>simp_all add: handle_def undo_begin_def applyResultToCanvas_begin_def
       ws_onopen_def store_defs split: option.splits\<close>)

lemma effects_flag:
  "cancellationRequestedRef (fst (subscribeEffect a c)) = cancellationRequestedRef c"
  "cancellationRequestedRef (fst (pollEffect a st c)) = cancellationRequestedRef c"
  "cancellationRequestedRef c \<Longrightarrow> cancellationRequestedRef (fst (cancelEffect a st c))"
  "st = Queued \<or> st = Running \<Longrightarrow>
     cancellationRequestedRef (fst (replayEffect env st c)) = cancellationRequestedRef c"
  by (simp_all add: subscribeEffect_def pollEffect_def cancelEffect_def
      requestCancellation_begin_def replayEffect_def Let_def)

lemma render_flag_reset:
  assumes "cancellationRequestedRef c" and "\<not> cancellationRequestedRef (fst (render_pass env c))"
  shows "jobStatus c \<notin> {Queued, Running}"
proof (rule ccontr)
  assume "\<not> jobStatus c \<notin> {Queued, Running}"
  then have busy: "jobStatus c = Queued \<or> jobStatus c = Running" by simp
  have "cancellationRequestedRef (fst (render_pass env c))"
    using assms(1) busy by (simp add: render_pass_def Let_def effects_flag)
  with assms(2) show False by simp
qed

lemma replayEffect_busy:
  assumes "st = Queued \<or> st = Running"
  shows "replayEffect env st c = (c\<lparr>lastJobStatusRef := st\<rparr>, [])"
  using assms by (auto simp: replayEffect_def Let_def)

lemma subscribeEffect_store [simp]:
  "cancellationRequestedRef (fst (subscribeEffect a c)) = cancellationRequestedRef c"
  "baseImage (fst (subscribeEffect a c)) = baseImage c"
  "prompt (fst (subscribeEffect a c)) = prompt c"
  by (simp_all add: subscribeEffect_def)

lemma pollEffect_store [simp]:
  "cancellationRequestedRef (fst (pollEffect a st c)) = cancellationRequestedRef c"
  "baseImage (fst (pollEffect a st c)) = baseImage c"
  "prompt (fst (pollEffect a st c)) = prompt c"
  by (simp_all add: pollEffect_def poll_begin_def)

lemma cancelEffect_store [simp]:
  "baseImage (fst (cancelEffect a st c)) = baseImage c"
  "prompt (fst (cancelEffect a st c)) = prompt c"
  by (simp_all add: cancelEffect_def requestCancellation_begin_def)

lemma cancelEffect_busy:
  assumes "st = Queued \<or> st = Running"
  shows "cancellationRequestedRef (fst (cancelEffect a st c))
           = (cancellationRequestedRef c \<or> (pendingGenerationRef c \<noteq> None \<and> truthy a))"
    and "cancel_calls (snd (cancelEffect a st c))
           = (if \<not> cancellationRequestedRef c \<and> pendingGenerationRef c \<noteq> None \<and> truthy a
              then [nullish a []] else [])"
  using assms by (auto simp: cancelEffect_def requestCancellation_begin_def)

text \<open>The effects of a render whose status is busy.\<close>

lemma render_pass_busy:
  assumes "jobStatus h = Queued \<or> jobStatus h = Running"
  shows "jobStatus (fst (render_pass env h)) = jobStatus h"
    and "activeJobId (fst (render_pass env h)) = activeJobId h"
    and "pendingGenerationRef (fst (render_pass env h)) = pendingGenerationRef h"
    and "create_calls (snd (render_pass env h)) = []"
    and "cancellationRequestedRef (fst (render_pass env h))
           = (cancellationRequestedRef h
              \<or> (renderedDeps h \<noteq> (activeJobId h, jobStatus h)
                  \<and> pendingGenerationRef h \<noteq> None \<and> truthy (activeJobId h)))"
    and "cancel_calls (snd (render_pass env h))
           = (if \<not> cancellationRequestedRef h \<and> renderedDeps h \<noteq> (activeJobId h, jobStatus h)
                 \<and> pendingGenerationRef h \<noteq> None \<and> truthy (activeJobId h)
              then [nullish (activeJobId h) []] else [])"
  using assms
  by (simp_all add: render_pass_def Let_def replayEffect_busy cancelEffect_busy)

lemma render_pass_store_busy:
  assumes "jobStatus h = Queued \<or> jobStatus h = Running"
  shows "baseImage (fst (render_pass env h)) = baseImage h"
    and "prompt (fst (render_pass env h)) = prompt h"
  using assms by (simp_all add: render_pass_def Let_def replayEffect_busy)

lemma run_effects_busy:
  assumes "jobStatus h = Queued \<or> jobStatus h = Running"
  shows "jobStatus (fst (run_effects env h)) = jobStatus h"
    and "activeJobId (fst (run_effects env h)) = activeJobId h"
    and "pendingGenerationRef (fst (run_effects env h)) = pendingGenerationRef h"
    and "settled (fst (run_effects env h))"
    and "create_calls (snd (run_effects env h)) = []"
    and "cancellationRequestedRef (fst (run_effects env h))
           = (cancellationRequestedRef h
              \<or> (renderedDeps h \<noteq> (activeJobId h, jobStatus h)
                  \<and> pendingGenerationRef h \<noteq> None \<and> truthy (activeJobId h)))"
    and "cancel_calls (snd (run_effects env h))
           = (if \<not> cancellationRequestedRef h \<and> renderedDeps h \<noteq> (activeJobId h, jobStatus h)
                 \<and> pendingGenerationRef h \<noteq> None \<and> truthy (activeJobId h)
              then [nullish (activeJobId h) []] else [])"
    and "baseImage (fst (run_effects env h)) = baseImage h"
    and "prompt (fst (run_effects env h)) = prompt h"
proof -
  let ?c1 = "fst (render_pass env h)"
  note p1 = render_pass_busy [OF assms, of env] render_pass_store_busy [OF assms, of env]
  from assms p1(1) have busy1: "jobStatus ?c1 = Queued \<or> jobStatus ?c1 = Running" by simp
  note p2 = render_pass_busy [OF busy1, of env] render_pass_store_busy [OF busy1, of env]
  have deps1: "renderedDeps ?c1 = (activeJobId ?c1, jobStatus ?c1)"
    by (simp add: p1(1) p1(2))
  show "jobStatus (fst (run_effects env h)) = jobStatus h"
    by (simp add: run_effects_def Let_def p2(1) p1(1))
  show "activeJobId (fst (run_effects env h)) = activeJobId h"
    by (simp add: run_effects_def Let_def p2(2) p1(2))
  show "pendingGenerationRef (fst (run_effects env h)) = pendingGenerationRef h"
    by (simp add: run_effects_def Let_def p2(3) p1(3))
  show "settled (fst (run_effects env h))"
    by (simp add: run_effects_def Let_def settled_def p2(1) p2(2))
  show "create_calls (snd (run_effects env h)) = []"
    by (simp add: run_effects_def Let_def p2(4) p1(4))
  show "cancellationRequestedRef (fst (run_effects env h))
           = (cancellationRequestedRef h
              \<or> (renderedDeps h \<noteq> (activeJobId h, jobStatus h)
                  \<and> pendingGenerationRef h \<noteq> None \<and> truthy (activeJobId h)))"
    by (simp add: run_effects_def Let_def p2(5) p1(1) p1(2) p1(3) p1(5))
  show "cancel_calls (snd (run_effects env h))
           = (if \<not> cancellationRequestedRef h \<and> renderedDeps h \<noteq> (activeJobId h, jobStatus h)
                 \<and> pendingGenerationRef h \<noteq> None \<and> truthy (activeJobId h)
              then [nullish (activeJobId h) []] else [])"
    by (simp add: run_effects_def Let_def p2(6) p1(1) p1(2) p1(3) p1(5) p1(6))
  show "baseImage (fst (run_effects env h)) = baseImage h"
    by (simp add: run_effects_def Let_def p2(7) p1(7))
  show "prompt (fst (run_effects env h)) = prompt h"
    by (simp add: run_effects_def Let_def p2(8) p1(8))
qed


text \<open>Handlers in a busy state.\<close>

lemma submitGeneration_busy:
  assumes "jobStatus c = Queued \<or> jobStatus c = Running"
  shows "submitGeneration env sk cv q sd c =
     (if sk = [] then (c, [])
      else if baseImage c = None
      then (setJobStatus Error (Some (t env ''ui.errors.base_required'')) c, [])
      else requestCancellation_begin (activeJobId c)
             (c\<lparr>pendingGenerationRef :=
                  Some \<lparr>sketchDataUrl = sk, canvasDataUrl = cv, pg_quality = q, pg_seed = sd\<rparr>\<rparr>))"
  using assms by (auto simp: submitGeneration_unfold Let_def)

lemma redirect_only_calls:
  assumes "set fx \<subseteq> {RedirectToLogin}"
  shows "create_calls fx = []" and "cancel_calls fx = []"
  using assms by (induction fx) auto

lemma resume_busy:
  "isGenerating (jobStatus (fst (executeGeneration_resume env g c))) \<longrightarrow>
     pendingGenerationRef (fst (executeGeneration_resume env g c)) = pendingGenerationRef c
     \<and> cancellationRequestedRef (fst (executeGeneration_resume env g c)) = cancellationRequestedRef c"
  "isGenerating (jobStatus (fst (requestCancellation_resume f c))) \<longrightarrow>
     pendingGenerationRef (fst (requestCancellation_resume f c)) = pendingGenerationRef c
     \<and> cancellationRequestedRef (fst (requestCancellation_resume f c)) = cancellationRequestedRef c"
  "pendingGenerationRef (fst (undo_resume env u c)) = pendingGenerationRef c
     \<and> cancellationRequestedRef (fst (undo_resume env u c)) = cancellationRequestedRef c"
  "pendingGenerationRef (fst (applyResultToCanvas_resume env ap c)) = pendingGenerationRef c
     \<and> cancellationRequestedRef (fst (applyResultToCanvas_resume env ap c)) = cancellationRequestedRef c"
  "isGenerating (jobStatus (fst (poll_resume env j pf c))) \<longrightarrow>
     pendingGenerationRef (fst (poll_resume env j pf c)) = pendingGenerationRef c
     \<and> cancellationRequestedRef (fst (poll_resume env j pf c)) = cancellationRequestedRef c"
  "pendingGenerationRef (ws_onmessage env m c) = pendingGenerationRef c
     \<and> cancellationRequestedRef (ws_onmessage env m c) = cancellationRequestedRef c"
  by (simp_all add: executeGeneration_resume_def requestCancellation_resume_def undo_resume_def
      applyResultToCanvas_resume_def poll_resume_def ws_onmessage_def Let_def store_defs
      outcome_defs isGenerating_def split: Fetched.split sum.split option.split WsMessage.split)

lemma resume_last_status [simp]:
  "lastJobStatusRef (fst (executeGeneration_resume env g c)) = lastJobStatusRef c"
  "lastJobStatusRef (fst (requestCancellation_resume f c)) = lastJobStatusRef c"
  "lastJobStatusRef (fst (undo_resume env u c)) = lastJobStatusRef c"
  "lastJobStatusRef (fst (applyResultToCanvas_resume env ap c)) = lastJobStatusRef c"
  "lastJobStatusRef (fst (poll_resume env j pf c)) = lastJobStatusRef c"
  "lastJobStatusRef (ws_onmessage env m c) = lastJobStatusRef c"
  by (simp_all add: executeGeneration_resume_def requestCancellation_resume_def undo_resume_def
      applyResultToCanvas_resume_def poll_resume_def ws_onmessage_def Let_def store_defs
      outcome_defs split: Fetched.split sum.split option.split WsMessage.split)

lemma handle_last_status [simp]:
  "lastJobStatusRef (fst (handle env ev c)) = lastJobStatusRef c"
  by (simp add: handle_def regenerate_def improve_def undo_begin_def
      applyResultToCanvas_begin_def ws_onopen_def store_defs split: Event.split option.split)


text \<open>
  An event of a busy period, handled: no create-job call; a cancel call exactly when the
  flag goes up; the flag does not go down; the pending generation is replaced by the
  payload of a submission and kept otherwise.
\<close>

lemma handle_busy_submission:
  assumes busy: "jobStatus c = Queued \<or> jobStatus c = Running"
    and stays: "isGenerating (jobStatus (fst (submitGeneration env sk cv q sd c)))"
    and sub: "sub = (if sk \<noteq> [] \<and> baseImage c \<noteq> None
                     then Some \<lparr>sketchDataUrl = sk, canvasDataUrl = cv, pg_quality = q, pg_seed = sd\<rparr>
                     else None)"
  shows "create_calls (snd (submitGeneration env sk cv q sd c)) = []
    \<and> cancel_calls (snd (submitGeneration env sk cv q sd c))
        = (if \<not> cancellationRequestedRef c
              \<and> cancellationRequestedRef (fst (submitGeneration env sk cv q sd c))
           then [nullish (activeJobId c) []] else [])
    \<and> (cancellationRequestedRef c \<longrightarrow>
          cancellationRequestedRef (fst (submitGeneration env sk cv q sd c)))
    \<and> pendingGenerationRef (fst (submitGeneration env sk cv q sd c))
        = (case sub of Some p \<Rightarrow> Some p | None \<Rightarrow> pendingGenerationRef c)
    \<and> (sub \<noteq> None \<longrightarrow>
          activeJobId (fst (submitGeneration env sk cv q sd c)) = activeJobId c
          \<and> jobStatus (fst (submitGeneration env sk cv q sd c)) = jobStatus c
          \<and> (truthy (activeJobId c) \<longrightarrow>
               cancellationRequestedRef (fst (submitGeneration env sk cv q sd c))))"
proof (cases "sk = []")
  case True
  with sub show ?thesis by (simp add: submitGeneration_busy [OF busy])
next
  case False
  show ?thesis
  proof (cases "baseImage c")
    case None
    with False stays show ?thesis
      by (simp add: submitGeneration_busy [OF busy] setJobStatus_def isGenerating_def)
  next
    case (Some base)
    with False sub show ?thesis
      by (simp add: submitGeneration_busy [OF busy] requestCancellation_begin_def)
  qed
qed

lemma handle_busy:
  assumes busy: "jobStatus c = Queued \<or> jobStatus c = Running"
    and stays: "keeps_busy env ev c"
  shows "create_calls (snd (handle env ev c)) = []
    \<and> cancel_calls (snd (handle env ev c))
        = (if \<not> cancellationRequestedRef c \<and> cancellationRequestedRef (fst (handle env ev c))
           then [nullish (activeJobId c) []] else [])
    \<and> (cancellationRequestedRef c \<longrightarrow> cancellationRequestedRef (fst (handle env ev c)))
    \<and> pendingGenerationRef (fst (handle env ev c))
        = (case submission_of ev c of Some p \<Rightarrow> Some p | None \<Rightarrow> pendingGenerationRef c)
    \<and> (submission_of ev c \<noteq> None \<longrightarrow>
          activeJobId (fst (handle env ev c)) = activeJobId c
          \<and> jobStatus (fst (handle env ev c)) = jobStatus c
          \<and> (truthy (activeJobId c) \<longrightarrow> cancellationRequestedRef (fst (handle env ev c))))"
proof (cases ev)
  case (Submit sk cv q sd)
  with stays have "isGenerating (jobStatus (fst (submitGeneration env sk cv q sd c)))"
    by (simp add: keeps_busy_def handle_def)
  from handle_busy_submission [OF busy this refl] Submit show ?thesis
    by (simp add: handle_def submission_of_def)
next
  case (SubmitCaptured rn sk cv q sd)
  with stays show ?thesis by (simp add: keeps_busy_def current_callback_def)
next
  case Regenerate
  show ?thesis
  proof (cases "truthy (lastSketchDataUrl c)")
    case False
    with Regenerate show ?thesis
      by (simp add: handle_def regenerate_def submission_of_def)
  next
    case True
    then have sk: "nullish (lastSketchDataUrl c) [] \<noteq> []"
      by (simp add: truthy_def nullish_def split: option.splits)
    from stays Regenerate True
    have "isGenerating (jobStatus (fst (submitGeneration env (nullish (lastSketchDataUrl c) [])
        (lastCanvasDataUrl c) Normal None c)))"
      by (simp add: keeps_busy_def handle_def regenerate_def)
    from handle_busy_submission [OF busy this refl] Regenerate True sk show ?thesis
      by (simp add: handle_def regenerate_def submission_of_def)
  qed
next
  case Improve
  show ?thesis
  proof (cases "truthy (lastSketchDataUrl c) \<and> truthy_num (currentSeed c)")
    case False
    with Improve show ?thesis
      by (auto simp: handle_def improve_def submission_of_def)
  next
    case True
    then have sk: "nullish (lastSketchDataUrl c) [] \<noteq> []"
      by (simp add: truthy_def nullish_def split: option.splits)
    from stays Improve True
    have "isGenerating (jobStatus (fst (submitGeneration env (nullish (lastSketchDataUrl c) [])
        (lastCanvasDataUrl c) High (currentSeed c) c)))"
      by (simp add: keeps_busy_def handle_def improve_def)
    from handle_busy_submission [OF busy this refl] Improve True sk show ?thesis
      by (simp add: handle_def improve_def submission_of_def)
  qed
next
  case Undo
  then show ?thesis by (simp add: handle_def undo_begin_def submission_of_def)
next
  case ApplyResultToCanvas
  then show ?thesis
    by (simp add: handle_def applyResultToCanvas_begin_def submission_of_def split: option.split)
next
  case (GenerateSettled g)
  with stays resume_busy(1) [of env g c]
    redirect_only_calls [OF executeGeneration_resume_calls [of env g c]]
  show ?thesis by (simp add: keeps_busy_def handle_def submission_of_def)
next
  case (CancelSettled f)
  with stays resume_busy(2) [of f c]
    redirect_only_calls [OF requestCancellation_resume_calls [of f c]]
  show ?thesis by (simp add: keeps_busy_def handle_def submission_of_def)
next
  case (UndoSettled u)
  with resume_busy(3) [of env u c] redirect_only_calls [OF undo_resume_calls [of env u c]]
  show ?thesis by (simp add: handle_def submission_of_def)
next
  case (ApplySettled ap)
  with resume_busy(4) [of env ap c]
    redirect_only_calls [OF applyResultToCanvas_resume_calls [of env ap c]]
  show ?thesis by (simp add: handle_def submission_of_def)
next
  case PollTick
  then show ?thesis
    by (simp add: handle_def pollTick_def poll_begin_def submission_of_def split: option.split)
next
  case (PollSettled j pf)
  with stays resume_busy(5) [of env j pf c]
    redirect_only_calls [OF poll_resume_calls [of env j pf c]]
  show ?thesis by (simp add: keeps_busy_def handle_def submission_of_def)
next
  case WsOpened
  then show ?thesis by (simp add: handle_def ws_onopen_def submission_of_def)
next
  case WsClosed
  then show ?thesis by (simp add: handle_def submission_of_def)
next
  case (WsReceived m)
  with resume_busy(6) [of env m c] show ?thesis by (simp add: handle_def submission_of_def)
next
  case (BaseImageSet b)
  then show ?thesis by (simp add: handle_def setBaseImage_def submission_of_def)
next
  case HistoryReset
  then show ?thesis by (simp add: handle_def resetHistory_def submission_of_def)
qed


text \<open>One event of a busy period, with the renders it causes.\<close>

lemma step_busy:
  assumes settled: "settled c"
    and busy: "jobStatus c = Queued \<or> jobStatus c = Running"
    and known: "pendingGenerationRef c \<noteq> None \<and> truthy (activeJobId c) \<longrightarrow> cancellationRequestedRef c"
    and stays: "keeps_busy env ev c"
  shows "settled (fst (step env ev c))"
    and "jobStatus (fst (step env ev c)) = Queued \<or> jobStatus (fst (step env ev c)) = Running"
    and "pendingGenerationRef (fst (step env ev c)) \<noteq> None \<and> truthy (activeJobId (fst (step env ev c)))
         \<longrightarrow> cancellationRequestedRef (fst (step env ev c))"
    and "create_calls (snd (step env ev c)) = []"
    and "cancellationRequestedRef c \<longrightarrow> cancellationRequestedRef (fst (step env ev c))"
    and "length (cancel_calls (snd (step env ev c)))
         = (if cancellationRequestedRef (fst (step env ev c)) \<and> \<not> cancellationRequestedRef c
            then 1 else 0)"
    and "pendingGenerationRef (fst (step env ev c))
         = (case submission_of ev c of Some p \<Rightarrow> Some p | None \<Rightarrow> pendingGenerationRef c)"
proof -
  let ?h = "fst (handle env ev c)"
  let ?c1 = "fst (run_effects env ?h)"
  from stays have busy_h: "jobStatus ?h = Queued \<or> jobStatus ?h = Running"
    by (simp add: keeps_busy_def isGenerating_def)
  note hb = handle_busy [OF busy stays]
  note re = run_effects_busy [OF busy_h, of env]
  from settled have deps: "renderedDeps ?h = (activeJobId c, jobStatus c)"
    by (simp add: settled_def)
  have st: "fst (step env ev c) = ?c1"
    and fx: "snd (step env ev c) = snd (handle env ev c) @ snd (run_effects env ?h)"
    by (simp_all add: step_def Let_def)
  have flag1: "cancellationRequestedRef ?c1
       = (cancellationRequestedRef ?h
          \<or> ((activeJobId c, jobStatus c) \<noteq> (activeJobId ?h, jobStatus ?h)
              \<and> pendingGenerationRef ?h \<noteq> None \<and> truthy (activeJobId ?h)))"
    using re(6) by (simp only: deps)
  have cancels1: "cancel_calls (snd (run_effects env ?h))
       = (if \<not> cancellationRequestedRef ?h \<and> cancellationRequestedRef ?c1
          then [nullish (activeJobId ?h) []] else [])"
    using re(7) flag1 by (simp only: deps) auto
  show "settled (fst (step env ev c))"
    by (simp only: st re(4))
  show "jobStatus (fst (step env ev c)) = Queued \<or> jobStatus (fst (step env ev c)) = Running"
    using busy_h by (simp only: st re(1))
  show "create_calls (snd (step env ev c)) = []"
    using hb re(5) by (simp add: fx)
  show "cancellationRequestedRef c \<longrightarrow> cancellationRequestedRef (fst (step env ev c))"
    using hb flag1 by (simp only: st) blast
  show "length (cancel_calls (snd (step env ev c)))
         = (if cancellationRequestedRef (fst (step env ev c)) \<and> \<not> cancellationRequestedRef c
            then 1 else 0)"
  proof -
    from hb have hc: "cancel_calls (snd (handle env ev c))
        = (if \<not> cancellationRequestedRef c \<and> cancellationRequestedRef ?h
           then [nullish (activeJobId c) []] else [])"
      and mono: "cancellationRequestedRef c \<longrightarrow> cancellationRequestedRef ?h"
      by blast+
    from flag1 have mono1: "cancellationRequestedRef ?h \<longrightarrow> cancellationRequestedRef ?c1"
      by blast
    show ?thesis
      using mono mono1 by (simp only: st fx cancel_calls_append hc cancels1) auto
  qed
  show "pendingGenerationRef (fst (step env ev c))
         = (case submission_of ev c of Some p \<Rightarrow> Some p | None \<Rightarrow> pendingGenerationRef c)"
    using hb by (simp only: st re(3))
  show "pendingGenerationRef (fst (step env ev c)) \<noteq> None \<and> truthy (activeJobId (fst (step env ev c)))
         \<longrightarrow> cancellationRequestedRef (fst (step env ev c))"
  proof
    assume a: "pendingGenerationRef (fst (step env ev c)) \<noteq> None
        \<and> truthy (activeJobId (fst (step env ev c)))"
    then have ph: "pendingGenerationRef ?h \<noteq> None" and th: "truthy (activeJobId ?h)"
      by (simp_all add: st re(2) re(3))
    show "cancellationRequestedRef (fst (step env ev c))"
    proof (cases "(activeJobId c, jobStatus c) = (activeJobId ?h, jobStatus ?h)")
      case False
      with ph th flag1 show ?thesis by (simp only: st) blast
    next
      case True
      then have same: "activeJobId ?h = activeJobId c" by simp
      have "cancellationRequestedRef ?h"
      proof (cases "submission_of ev c")
        case None
        with hb ph have "pendingGenerationRef c \<noteq> None" by simp
        with known th same have "cancellationRequestedRef c" by simp
        with hb show ?thesis by blast
      next
        case (Some p)
        with hb th same show ?thesis by simp
      qed
      with flag1 show ?thesis by (simp only: st) blast
    qed
  qed
qed

text \<open>A whole busy period.\<close>

lemma run_busy:
  assumes "settled c"
    and "jobStatus c = Queued \<or> jobStatus c = Running"
    and "pendingGenerationRef c \<noteq> None \<and> truthy (activeJobId c) \<longrightarrow> cancellationRequestedRef c"
    and "busy_period env evs c"
  shows "settled (fst (run env evs c))
    \<and> (jobStatus (fst (run env evs c)) = Queued \<or> jobStatus (fst (run env evs c)) = Running)
    \<and> (pendingGenerationRef (fst (run env evs c)) \<noteq> None \<and> truthy (activeJobId (fst (run env evs c)))
         \<longrightarrow> cancellationRequestedRef (fst (run env evs c)))
    \<and> create_calls (snd (run env evs c)) = []
    \<and> (cancellationRequestedRef c \<longrightarrow> cancellationRequestedRef (fst (run env evs c)))
    \<and> length (cancel_calls (snd (run env evs c)))
         = (if cancellationRequestedRef (fst (run env evs c)) \<and> \<not> cancellationRequestedRef c
            then 1 else 0)
    \<and> pendingGenerationRef (fst (run env evs c))
         = (case last_submission env evs c of Some p \<Rightarrow> Some p | None \<Rightarrow> pendingGenerationRef c)"
  using assms
proof (induction evs arbitrary: c)
  case Nil
  have "run env [] c = (c, [])" by (rule run.simps(1))
  with Nil.prems(1,2,3) show ?case by (simp only: fst_conv snd_conv last_submission.simps
        option.case create_calls_Nil cancel_calls_Nil list.size simp_thms if_False if_cancel split: if_split)
next
  case (Cons ev evs)
  define c1 where "c1 = fst (step env ev c)"
  define f1 where "f1 = snd (step env ev c)"
  define c2 where "c2 = fst (run env evs c1)"
  define f2 where "f2 = snd (run env evs c1)"
  define l2 where "l2 = last_submission env evs c1"
  from Cons.prems(4) have stays: "keeps_busy env ev c" and rest: "busy_period env evs c1"
    unfolding c1_def by (simp_all only: busy_period.simps)
  note s = step_busy [OF Cons.prems(1) Cons.prems(2) Cons.prems(3) stays, folded c1_def f1_def]
  note ih = Cons.IH [OF s(1) s(2) s(3) rest, folded c2_def f2_def l2_def]
  have st: "fst (run env (ev # evs) c) = c2"
    and fx: "snd (run env (ev # evs) c) = f1 @ f2"
    unfolding c1_def c2_def f1_def f2_def by (simp_all add: Let_def)
  have ls: "last_submission env (ev # evs) c = (case l2 of Some p \<Rightarrow> Some p | None \<Rightarrow> submission_of ev c)"
    unfolding l2_def c1_def by (simp only: last_submission.simps)
  from ih have i1: "settled c2" by (rule conjunct1)
  from ih have i2: "jobStatus c2 = Queued \<or> jobStatus c2 = Running" by (elim conjE)
  from ih have i3: "pendingGenerationRef c2 \<noteq> None \<and> truthy (activeJobId c2) \<longrightarrow> cancellationRequestedRef c2"
    by (elim conjE)
  from ih have i4: "create_calls f2 = []" by (elim conjE)
  from ih have i5: "cancellationRequestedRef c1 \<longrightarrow> cancellationRequestedRef c2" by (elim conjE)
  from ih have i6: "length (cancel_calls f2) = (if cancellationRequestedRef c2 \<and> \<not> cancellationRequestedRef c1 then 1 else 0)"
    by (elim conjE)
  from ih have i7: "pendingGenerationRef c2 = (case l2 of Some p \<Rightarrow> Some p | None \<Rightarrow> pendingGenerationRef c1)"
    by (elim conjE)
  have pend: "pendingGenerationRef c2
      = (case last_submission env (ev # evs) c of Some p \<Rightarrow> Some p | None \<Rightarrow> pendingGenerationRef c)"
    unfolding ls using i7 s(7) by (cases l2; cases "submission_of ev c"; simp)
  have cr: "create_calls (f1 @ f2) = []"
    using i4 s(4) by simp
  have mono: "cancellationRequestedRef c \<longrightarrow> cancellationRequestedRef c2"
    using i5 s(5) by blast
  have count: "length (cancel_calls (f1 @ f2))
      = (if cancellationRequestedRef c2 \<and> \<not> cancellationRequestedRef c then 1 else 0)"
    using i5 i6 s(5) s(6)
    by (cases "cancellationRequestedRef c"; cases "cancellationRequestedRef c1";
        cases "cancellationRequestedRef c2"; simp)
  show ?case
    unfolding st fx using i1 i2 i3 cr mono count pend by blast
qed

text \<open>The event that ends a busy period.\<close>

lemma replay_calls_same:
  assumes "baseImage h = baseImage c" and "prompt h = prompt c"
  shows "replay_calls env p h = replay_calls env p c"
  unfolding replay_calls_def assms by (rule refl)

lemma executeGeneration_begin_create:
  "create_calls (snd (executeGeneration_begin env p c)) = replay_calls env (Some p) c"
  "cancel_calls (snd (executeGeneration_begin env p c)) = []"
  "pendingGenerationRef (fst (executeGeneration_begin env p c)) = pendingGenerationRef c"
  by (simp_all add: executeGeneration_begin_unfold replay_calls_def Let_def store_defs
      outcome_defs split: option.split sum.split)

lemma replay_calls_frame [simp]:
  "replay_calls env p (c\<lparr>lastJobStatusRef := l\<rparr>) = replay_calls env p c"
  "replay_calls env p (c\<lparr>cancellationRequestedRef := b\<rparr>) = replay_calls env p c"
  "replay_calls env p (c\<lparr>pendingGenerationRef := g\<rparr>) = replay_calls env p c"
  "replay_calls env p (c\<lparr>pendingJobRef := a\<rparr>) = replay_calls env p c"
  by (simp_all add: replay_calls_def split: option.split sum.split)

lemma replayEffect_end:
  assumes "lastJobStatusRef c = Queued \<or> lastJobStatusRef c = Running"
    and "st \<noteq> Queued" and "st \<noteq> Running"
  shows "create_calls (snd (replayEffect env st c)) = replay_calls env (pendingGenerationRef c) c"
    and "cancel_calls (snd (replayEffect env st c)) = []"
    and "pendingGenerationRef (fst (replayEffect env st c)) = None"
proof -
  show "create_calls (snd (replayEffect env st c)) = replay_calls env (pendingGenerationRef c) c"
  proof (cases "pendingGenerationRef c")
    case None
    with assms show ?thesis by (simp add: replayEffect_def Let_def replay_calls_def)
  next
    case (Some p)
    with assms show ?thesis
      by (simp add: replayEffect_def Let_def executeGeneration_begin_create)
  qed
  show "cancel_calls (snd (replayEffect env st c)) = []"
    using assms
    by (cases "pendingGenerationRef c")
       (simp_all add: replayEffect_def Let_def executeGeneration_begin_create)
  show "pendingGenerationRef (fst (replayEffect env st c)) = None"
    using assms
    by (cases "pendingGenerationRef c")
       (simp_all add: replayEffect_def Let_def executeGeneration_begin_create)
qed

lemma subscribeEffect_replay [simp]:
  "replay_calls env p (fst (subscribeEffect a c)) = replay_calls env p c"
  by (simp add: subscribeEffect_def)

lemma render_pass_end:
  assumes "lastJobStatusRef h = Queued \<or> lastJobStatusRef h = Running"
    and "jobStatus h \<noteq> Queued" and "jobStatus h \<noteq> Running"
  shows "create_calls (snd (render_pass env h)) = replay_calls env (pendingGenerationRef h) h"
    and "cancel_calls (snd (render_pass env h)) = []"
    and "pendingGenerationRef (fst (render_pass env h)) = None"
proof -
  define h2 where "h2 = fst (if activeJobId h \<noteq> fst (renderedDeps h)
                             then subscribeEffect (activeJobId h) h else (h, []))"
  define f2 where "f2 = snd (if activeJobId h \<noteq> fst (renderedDeps h)
                             then subscribeEffect (activeJobId h) h else (h, []))"
  have was: "lastJobStatusRef h2 = Queued \<or> lastJobStatusRef h2 = Running"
    using assms(1) unfolding h2_def by (simp add: subscribeEffect_def)
  have same: "replay_calls env (pendingGenerationRef h2) h2 = replay_calls env (pendingGenerationRef h) h"
    unfolding h2_def by simp
  have quiet: "create_calls f2 = []" "cancel_calls f2 = []"
    unfolding f2_def by simp_all
  note r3 = replayEffect_end [OF was assms(2) assms(3), of env]
  note c4 = cancelEffect_nothing_pending [OF r3(3), of "activeJobId h" "jobStatus h"]
  have unfolded: "render_pass env h =
      (let r3 = replayEffect env (jobStatus h) h2;
           r4 = (if (activeJobId h, jobStatus h) \<noteq> renderedDeps h
                 then cancelEffect (activeJobId h) (jobStatus h) (fst r3) else (fst r3, []));
           r5 = (if (activeJobId h, jobStatus h) \<noteq> renderedDeps h
                 then pollEffect (activeJobId h) (jobStatus h) (fst r4) else (fst r4, []))
       in ((fst r5)\<lparr>renderedDeps := (activeJobId h, jobStatus h)\<rparr>,
           f2 @ snd r3 @ snd r4 @ snd r5))"
    unfolding h2_def f2_def render_pass_def Let_def by (rule refl)
  show "create_calls (snd (render_pass env h)) = replay_calls env (pendingGenerationRef h) h"
    unfolding unfolded using r3(1) same quiet by (simp add: Let_def c4)
  show "cancel_calls (snd (render_pass env h)) = []"
    unfolding unfolded using r3(2) quiet by (simp add: Let_def c4)
  show "pendingGenerationRef (fst (render_pass env h)) = None"
    unfolding unfolded using r3(3) by (simp add: Let_def c4)
qed

lemma run_effects_end:
  assumes "lastJobStatusRef h = Queued \<or> lastJobStatusRef h = Running"
    and "jobStatus h \<noteq> Queued" and "jobStatus h \<noteq> Running"
  shows "create_calls (snd (run_effects env h)) = replay_calls env (pendingGenerationRef h) h"
    and "cancel_calls (snd (run_effects env h)) = []"
    and "pendingGenerationRef (fst (run_effects env h)) = None"
proof -
  note p1 = render_pass_end [OF assms, of env]
  note p2 = render_pass_nothing_pending [OF p1(3), of env]
  show "create_calls (snd (run_effects env h)) = replay_calls env (pendingGenerationRef h) h"
    and "cancel_calls (snd (run_effects env h)) = []"
    and "pendingGenerationRef (fst (run_effects env h)) = None"
    using p1 p2 by (simp_all add: run_effects_def Let_def)
qed

lemma step_terminal:
  assumes "settled c" and "jobStatus c = Queued \<or> jobStatus c = Running"
    and "terminal_event j ev"
  shows "create_calls (snd (step env ev c)) = replay_calls env (pendingGenerationRef c) c"
    and "cancel_calls (snd (step env ev c)) = []"
proof -
  let ?h = "fst (handle env ev c)"
  note h = terminal_event_handled [OF assms(3), of env c]
  from assms(1) assms(2) have was: "lastJobStatusRef ?h = Queued \<or> lastJobStatusRef ?h = Running"
    by (simp add: settled_def)
  note e = run_effects_end [OF was h(2) h(3), of env]
  have "replay_calls env (pendingGenerationRef ?h) ?h = replay_calls env (pendingGenerationRef c) c"
    by (simp add: h(4) replay_calls_same [OF h(6) h(7)])
  with e h(8) show "create_calls (snd (step env ev c)) = replay_calls env (pendingGenerationRef c) c"
    and "cancel_calls (snd (step env ev c)) = []"
    by (simp_all add: step_def Let_def)
qed

text \<open>How busy periods begin.\<close>

lemma run_effects_settled: "settled (fst (run_effects env h))"
proof -
  let ?c1 = "fst (render_pass env h)"
  have last: "lastJobStatusRef ?c1 = jobStatus h" by simp
  have "jobStatus h = Queued \<or> jobStatus h = Running \<Longrightarrow> jobStatus ?c1 = jobStatus h"
    by (simp add: render_pass_def Let_def replayEffect_idle)
  with last have "\<not> ((lastJobStatusRef ?c1 = Queued \<or> lastJobStatusRef ?c1 = Running)
              \<and> \<not> (jobStatus ?c1 = Queued \<or> jobStatus ?c1 = Running))"
    by auto
  from render_pass_idle [OF this, of env]
  show ?thesis
    by (simp add: settled_def run_effects_def Let_def)
qed

lemma step_settled: "settled (fst (step env ev c))"
  by (simp add: step_def Let_def run_effects_settled)

lemma replayEffect_reset:
  assumes "st \<noteq> Queued" and "st \<noteq> Running"
  shows "\<not> cancellationRequestedRef (fst (replayEffect env st c))"
  using assms
  by (simp add: replayEffect_def Let_def executeGeneration_begin_frame split: option.split)

lemma cancelEffect_idle:
  assumes "st \<noteq> Queued" and "st \<noteq> Running"
  shows "cancelEffect a st c = (c, [])"
  using assms by (simp add: cancelEffect_def)

lemma render_pass_reset:
  assumes "jobStatus h \<noteq> Queued" and "jobStatus h \<noteq> Running"
  shows "\<not> cancellationRequestedRef (fst (render_pass env h))"
  using assms
  by (simp add: render_pass_def Let_def cancelEffect_idle replayEffect_reset)

lemma replayEffect_keeps_reset:
  assumes "pendingGenerationRef c = None" and "\<not> cancellationRequestedRef c"
  shows "\<not> cancellationRequestedRef (fst (replayEffect env st c))"
  using assms by (simp add: replayEffect_def Let_def)

lemma render_pass_keeps_reset:
  assumes "pendingGenerationRef c = None" and "\<not> cancellationRequestedRef c"
  shows "\<not> cancellationRequestedRef (fst (render_pass env c))"
  using assms
  by (simp add: render_pass_def Let_def cancelEffect_nothing_pending replayEffect_nothing_pending
      replayEffect_keeps_reset)

lemma run_effects_left:
  assumes "jobStatus h \<noteq> Queued" and "jobStatus h \<noteq> Running"
    and "pendingGenerationRef h = None \<or> lastJobStatusRef h = Queued \<or> lastJobStatusRef h = Running"
  shows "pendingGenerationRef (fst (run_effects env h)) = None"
    and "\<not> cancellationRequestedRef (fst (run_effects env h))"
proof -
  let ?c1 = "fst (render_pass env h)"
  have p1: "pendingGenerationRef ?c1 = None"
  proof (cases "pendingGenerationRef h = None")
    case True
    then show ?thesis by (rule render_pass_nothing_pending)
  next
    case False
    with assms(3) have "lastJobStatusRef h = Queued \<or> lastJobStatusRef h = Running" by blast
    from this assms(1) assms(2) show ?thesis by (rule render_pass_end)
  qed
  have f1: "\<not> cancellationRequestedRef ?c1"
    using assms(1) assms(2) by (rule render_pass_reset)
  from render_pass_nothing_pending(3) [OF p1, of env]
  show "pendingGenerationRef (fst (run_effects env h)) = None"
    by (simp add: run_effects_def Let_def)
  from render_pass_keeps_reset [OF p1 f1, of env]
  show "\<not> cancellationRequestedRef (fst (run_effects env h))"
    by (simp add: run_effects_def Let_def)
qed

lemma resume_refs:
  assumes "pendingGenerationRef c = None" and "\<not> cancellationRequestedRef c"
  shows "pendingGenerationRef (fst (executeGeneration_resume env g c)) = None
         \<and> \<not> cancellationRequestedRef (fst (executeGeneration_resume env g c))"
    and "pendingGenerationRef (fst (requestCancellation_resume f c)) = None
         \<and> \<not> cancellationRequestedRef (fst (requestCancellation_resume f c))"
    and "pendingGenerationRef (fst (undo_resume env u c)) = None
         \<and> \<not> cancellationRequestedRef (fst (undo_resume env u c))"
    and "pendingGenerationRef (fst (applyResultToCanvas_resume env ap c)) = None
         \<and> \<not> cancellationRequestedRef (fst (applyResultToCanvas_resume env ap c))"
    and "pendingGenerationRef (fst (poll_resume env j pf c)) = None
         \<and> \<not> cancellationRequestedRef (fst (poll_resume env j pf c))"
    and "pendingGenerationRef (ws_onmessage env m c) = None
         \<and> \<not> cancellationRequestedRef (ws_onmessage env m c)"
  using assms
  by (simp_all add: executeGeneration_resume_def requestCancellation_resume_def undo_resume_def
      applyResultToCanvas_resume_def poll_resume_def ws_onmessage_def Let_def store_defs
      outcome_defs split: Fetched.split sum.split option.split WsMessage.split)

lemma submitGeneration_idle_refs:
  assumes "jobStatus c \<noteq> Queued" and "jobStatus c \<noteq> Running"
    and "pendingGenerationRef c = None" and "\<not> cancellationRequestedRef c"
  shows "pendingGenerationRef (fst (submitGeneration env sk cv q sd c)) = None
         \<and> \<not> cancellationRequestedRef (fst (submitGeneration env sk cv q sd c))"
  using assms
  by (simp add: submitGeneration_unfold Let_def executeGeneration_begin_create store_defs)

lemma handle_idle_refs:
  assumes "current_callback ev"
    and "jobStatus c \<noteq> Queued" and "jobStatus c \<noteq> Running"
    and "pendingGenerationRef c = None" and "\<not> cancellationRequestedRef c"
  shows "pendingGenerationRef (fst (handle env ev c)) = None
         \<and> \<not> cancellationRequestedRef (fst (handle env ev c))"
proof (cases ev)
  case (Submit sk cv q sd)
  with submitGeneration_idle_refs [OF assms(2) assms(3) assms(4) assms(5), of env sk cv q sd]
  show ?thesis by (simp add: handle_def)
next
  case (SubmitCaptured rn sk cv q sd)
  with assms(1) show ?thesis by (simp add: current_callback_def)
next
  case Regenerate
  with submitGeneration_idle_refs [OF assms(2) assms(3) assms(4) assms(5), of env] assms(4) assms(5)
  show ?thesis by (simp add: handle_def regenerate_def)
next
  case Improve
  with submitGeneration_idle_refs [OF assms(2) assms(3) assms(4) assms(5), of env] assms(4) assms(5)
  show ?thesis by (simp add: handle_def improve_def)
next
  case (GenerateSettled g)
  with resume_refs(1) [OF assms(4) assms(5), of env g] show ?thesis by (simp add: handle_def)
next
  case (CancelSettled f)
  with resume_refs(2) [OF assms(4) assms(5), of f] show ?thesis by (simp add: handle_def)
next
  case (UndoSettled u)
  with resume_refs(3) [OF assms(4) assms(5), of env u] show ?thesis by (simp add: handle_def)
next
  case (ApplySettled ap)
  with resume_refs(4) [OF assms(4) assms(5), of env ap] show ?thesis by (simp add: handle_def)
next
  case (PollSettled j pf)
  with resume_refs(5) [OF assms(4) assms(5), of env j pf] show ?thesis by (simp add: handle_def)
next
  case (WsReceived m)
  with resume_refs(6) [OF assms(4) assms(5), of env m] show ?thesis by (simp add: handle_def)
qed (use assms in \<open>simp_all add: handle_def undo_begin_def applyResultToCanvas_begin_def
       ws_onopen_def store_defs split: option.splits\<close>)

text \<open>One event, and a run, from a state at rest.\<close>

lemma step_rest:
  assumes "at_rest c" and "current_callback ev"
  shows "at_rest (fst (step env ev c))"
    and "period_boundary env ev c \<Longrightarrow> period_start (fst (step env ev c))"
proof -
  let ?h = "fst (handle env ev c)"
  have st: "fst (step env ev c) = fst (run_effects env ?h)"
    by (simp add: step_def Let_def)
  have s': "settled (fst (step env ev c))" by (rule step_settled)
  from assms(1) have s: "settled c"
    and r: "isGenerating (jobStatus c) \<or> pendingGenerationRef c = None \<and> \<not> cancellationRequestedRef c"
    by (simp_all add: at_rest_def)
  have refs: "pendingGenerationRef (fst (step env ev c)) = None
      \<and> \<not> cancellationRequestedRef (fst (step env ev c))"
    if nk: "\<not> (isGenerating (jobStatus c) \<and> keeps_busy env ev c)"
  proof (cases "isGenerating (jobStatus ?h)")
    case True
    with nk assms(2) have idle: "\<not> isGenerating (jobStatus c)"
      by (simp add: keeps_busy_def)
    with r have p: "pendingGenerationRef c = None" and f: "\<not> cancellationRequestedRef c"
      by simp_all
    from idle have i: "jobStatus c \<noteq> Queued" "jobStatus c \<noteq> Running"
      by (simp_all add: isGenerating_def)
    note h = handle_idle_refs [OF assms(2) i p f, of env]
    from True have busy_h: "jobStatus ?h = Queued \<or> jobStatus ?h = Running"
      by (simp add: isGenerating_def)
    note e = run_effects_busy [OF busy_h, of env]
    from e(3) e(6) h show ?thesis unfolding st by simp
  next
    case False
    then have i: "jobStatus ?h \<noteq> Queued" "jobStatus ?h \<noteq> Running"
      by (simp_all add: isGenerating_def)
    have "pendingGenerationRef ?h = None \<or> lastJobStatusRef ?h = Queued \<or> lastJobStatusRef ?h = Running"
    proof (cases "isGenerating (jobStatus c)")
      case True
      with s show ?thesis by (simp add: settled_def isGenerating_def)
    next
      case idle: False
      with r have p: "pendingGenerationRef c = None" and f: "\<not> cancellationRequestedRef c"
        by simp_all
      from idle have j: "jobStatus c \<noteq> Queued" "jobStatus c \<noteq> Running"
        by (simp_all add: isGenerating_def)
      from handle_idle_refs [OF assms(2) j p f, of env] show ?thesis by simp
    qed
    from run_effects_left [OF i this, of env] show ?thesis unfolding st by simp
  qed
  show "at_rest (fst (step env ev c))"
  proof (cases "isGenerating (jobStatus c) \<and> keeps_busy env ev c")
    case True
    then have "jobStatus ?h = Queued \<or> jobStatus ?h = Running"
      by (simp add: keeps_busy_def isGenerating_def)
    from run_effects_busy(1) [OF this, of env] True s' show ?thesis
      unfolding st by (simp add: at_rest_def keeps_busy_def)
  next
    case False
    from refs [OF this] s' show ?thesis by (simp add: at_rest_def)
  qed
  show "period_start (fst (step env ev c))" if b: "period_boundary env ev c"
  proof -
    from b have busy: "isGenerating (jobStatus (fst (step env ev c)))"
      and "\<not> (isGenerating (jobStatus c) \<and> keeps_busy env ev c)"
      by (simp_all add: period_boundary_def split: if_splits)
    from refs [OF this(2)] busy s' show ?thesis by (simp add: period_start_def)
  qed
qed

lemma at_rest_initial: "at_rest initial"
  by (simp add: at_rest_def settled_def initial_def isGenerating_def)

lemma run_rest:
  assumes "at_rest c" and "current_callbacks evs"
  shows "at_rest (fst (run env evs c))"
  using assms
proof (induction evs arbitrary: c)
  case Nil
  then show ?case by simp
next
  case (Cons ev evs)
  from Cons.prems(2) have cb: "current_callback ev" and rest: "current_callbacks evs"
    by simp_all
  from step_rest(1) [OF Cons.prems(1) cb, of env] have "at_rest (fst (step env ev c))" .
  from Cons.IH [OF this rest] show ?case by (simp add: Let_def)
qed

text \<open>
  In a run of the mounted hook whose events are handled with the callbacks of the current
  render, every busy period begins in a state where the effects have run, nothing is
  pending and the cancellation flag is reset.
\<close>

lemma busy_period_begins:
  assumes "current_callbacks evs" and "current_callback ev"
    and "period_boundary env ev (fst (run env evs initial))"
  shows "period_start (fst (step env ev (fst (run env evs initial))))"
proof -
  from run_rest [OF at_rest_initial assms(1), of env]
  have "at_rest (fst (run env evs initial))" .
  from step_rest(2) [OF this assms(2) assms(3)] show ?thesis .
qed



end
